theory Spec2Isabelle
  imports Main "HOL-Library.Sublist"
begin

section \<open>JavaScript values\<close>

text \<open>
  The notification subsystem is TypeScript running on a JavaScript engine. The values that
  travel in a template's data bag (\<^verbatim>\<open>Record<string, any>\<close> parsed from the request's
  JSON) are modelled as scalars: a missing key reads as \<open>JUndefined\<close>. Nested objects and
  arrays are left out, and a number is an integer (its decimal notation is the one JavaScript
  prints for integers below \<open>10^21\<close>). A \<open>string\<close> is the UTF-8 encoding of the
  JavaScript string.
\<close>

datatype jsval = JUndefined | JNull | JBool bool | JNum int | JStr string

text \<open>ToBoolean, as \<^verbatim>\<open>x ? a : b\<close>, \<^verbatim>\<open>x || y\<close> and \<^verbatim>\<open>!x\<close> apply it.\<close>

fun truthy :: "jsval \<Rightarrow> bool" where
  "truthy JUndefined = False"
| "truthy JNull = False"
| "truthy (JBool b) = b"
| "truthy (JNum n) = (n \<noteq> 0)"
| "truthy (JStr s) = (s \<noteq> [])"

definition js_or :: "jsval \<Rightarrow> jsval \<Rightarrow> jsval" where
  "js_or a b = (if truthy a then a else b)"

definition jsval_of :: "string option \<Rightarrow> jsval" where
  "jsval_of x = (case x of None \<Rightarrow> JUndefined | Some s \<Rightarrow> JStr s)"

definition digit_char :: "nat \<Rightarrow> char" where
  "digit_char d = ''0123456789'' ! d"

text \<open>The decimal digits of a natural number, and \<open>Number.prototype.toString\<close> on an integer.\<close>

fun decimal :: "nat \<Rightarrow> string" where
  "decimal n = (if 10 \<le> n then decimal (n div 10) else []) @ [digit_char (n mod 10)]"

declare decimal.simps [simp del]

definition number_string :: "int \<Rightarrow> string" where
  "number_string i = (if 0 \<le> i then decimal (nat i) else CHR ''-'' # decimal (nat (- i)))"

text \<open>ToString, as a template literal applies it to the value of \<^verbatim>\<open>${...}\<close>.\<close>

fun toString :: "jsval \<Rightarrow> string" where
  "toString JUndefined = ''undefined''"
| "toString JNull = ''null''"
| "toString (JBool b) = (if b then ''true'' else ''false'')"
| "toString (JNum n) = number_string n"
| "toString (JStr s) = s"

text \<open>
  What a \<^verbatim>\<open>throw\<close> carries: an \<open>Error\<close> with its message, or a value that is not an
  instance of \<open>Error\<close>. The handlers read it with
  \<^verbatim>\<open>error instanceof Error ? error.message : 'Unknown error'\<close>.
\<close>

datatype thrown = Error string | NonError

fun message_of :: "thrown \<Rightarrow> string" where
  "message_of (Error m) = m"
| "message_of NonError = ''Unknown error''"

section \<open>Template renderer (templates/index.ts)\<close>

text \<open>
  A template literal is a sequence of literal chunks and substitutions \<^verbatim>\<open>${e}\<close>; a
  substitution whose expression is itself a template literal is nested. \<open>render\<close> is the
  string the literal evaluates to, \<open>subs\<close> the values its substitutions stringify.
\<close>

datatype tmpl = Lit string | Sub jsval | Tmpl "tmpl list"

fun render :: "tmpl \<Rightarrow> string" where
  "render (Lit s) = s"
| "render (Sub v) = toString v"
| "render (Tmpl ps) = concat (map render ps)"

fun subs :: "tmpl \<Rightarrow> jsval list" where
  "subs (Lit s) = []"
| "subs (Sub v) = [v]"
| "subs (Tmpl ps) = concat (map subs ps)"

type_synonym TemplateData = "string \<rightharpoonup> jsval"

definition get :: "TemplateData \<Rightarrow> string \<Rightarrow> jsval" where
  "get data k = (case data k of None \<Rightarrow> JUndefined | Some v \<Rightarrow> v)"

record RenderedTemplate =
  rendered_html :: jsval
  rendered_text :: jsval

definition taskReminder_html_head :: string where
  \<open>taskReminder_html_head = concat
    [''\<newline>'',
     ''<!DOCTYPE html>\<newline>'',
     ''<html>\<newline>'',
     ''<head>\<newline>'',
     ''  <style>\<newline>'',
     ''    body { font-family: Arial, sans-serif; line-height: 1.6; color: #333; }\<newline>'',
     ''    .container { max-width: 600px; margin: 0 auto; padding: 20px; }\<newline>'',
     ''    .header { background-color: #4F46E5; color: white; padding: 20px; text-align: center; }\<newline>'',
     ''    .content { background-color: #f9fafb; padding: 20px; margin-top: 20px; border-radius: 8px; }\<newline>'',
     ''    .task-name { font-size: 20px; font-weight: bold; margin-bottom: 10px; }\<newline>'',
     ''    .due-date { color: #dc2626; font-weight: bold; }\<newline>'',
     ''    .button { display: inline-block; background-color: #4F46E5; color: white; padding: 12px 24px; text-decoration: none; border-radius: 6px; margin-top: 20px; }\<newline>'',
     ''    .footer { margin-top: 30px; text-align: center; color: #6b7280; font-size: 12px; }\<newline>'',
     ''  </style>\<newline>'',
     ''</head>\<newline>'',
     ''<body>\<newline>'',
     ''  <div class="container">\<newline>'',
     ''    <div class="header">\<newline>'',
     ''      <h1>Task Reminder</h1>\<newline>'',
     ''    </div>\<newline>'',
     ''    <div class="content">\<newline>'',
     ''      <div class="task-name">'']\<close>

definition taskReminder_html_foot :: string where
  \<open>taskReminder_html_foot = concat
    [''\<newline>'',
     ''    </div>\<newline>'',
     ''    <div class="footer">\<newline>'',
     ''      <p>This is an automated reminder from Tidy Prioritize</p>\<newline>'',
     ''    </div>\<newline>'',
     ''  </div>\<newline>'',
     ''</body>\<newline>'',
     ''</html>\<newline>'',
     ''    '']\<close>

definition taskReminder_html :: "jsval \<Rightarrow> jsval \<Rightarrow> jsval \<Rightarrow> jsval \<Rightarrow> tmpl" where
  \<open>taskReminder_html taskName dueDate description url = Tmpl
    [Lit taskReminder_html_head,
     Sub taskName,
     Lit ''</div>\<newline>      '',
     (if truthy description then Tmpl [Lit ''<p>'', Sub description, Lit ''</p>''] else Sub (JStr [])),
     Lit ''\<newline>      '',
     (if truthy dueDate then Tmpl [Lit ''<p>Due Date: <span class="due-date">'', Sub dueDate, Lit ''</span></p>''] else Sub (JStr [])),
     Lit ''\<newline>      '',
     (if truthy url then Tmpl [Lit ''<a href="'', Sub url, Lit ''" class="button">View Task</a>''] else Sub (JStr [])),
     Lit taskReminder_html_foot]\<close>

definition taskReminder_text :: "jsval \<Rightarrow> jsval \<Rightarrow> jsval \<Rightarrow> jsval \<Rightarrow> tmpl" where
  \<open>taskReminder_text taskName dueDate description url = Tmpl
    [Lit ''\<newline>Task Reminder\<newline>\<newline>'',
     Sub taskName,
     Lit ''\<newline>'',
     (if truthy description then Tmpl [Lit ''\<newline>'', Sub description, Lit ''\<newline>''] else Sub (JStr [])),
     Lit ''\<newline>'',
     (if truthy dueDate then Tmpl [Lit ''Due Date: '', Sub dueDate, Lit ''\<newline>''] else Sub (JStr [])),
     Lit ''\<newline>'',
     (if truthy url then Tmpl [Lit ''\<newline>View Task: '', Sub url] else Sub (JStr [])),
     Lit (concat
       [''\<newline>'',
        ''\<newline>'',
        ''---\<newline>'',
        ''This is an automated reminder from Tidy Prioritize\<newline>'',
        ''    ''])]\<close>

definition taskReminderTemplate :: "TemplateData \<Rightarrow> RenderedTemplate" where
  "taskReminderTemplate data =
    (let taskName = get data ''taskName''; dueDate = get data ''dueDate''; description = get data ''description''; url = get data ''url''
     in \<lparr>rendered_html = JStr (render (taskReminder_html taskName dueDate description url)),
         rendered_text = JStr (render (taskReminder_text taskName dueDate description url))\<rparr>)"

definition taskAssigned_html_head :: string where
  \<open>taskAssigned_html_head = concat
    [''\<newline>'',
     ''<!DOCTYPE html>\<newline>'',
     ''<html>\<newline>'',
     ''<head>\<newline>'',
     ''  <style>\<newline>'',
     ''    body { font-family: Arial, sans-serif; line-height: 1.6; color: #333; }\<newline>'',
     ''    .container { max-width: 600px; margin: 0 auto; padding: 20px; }\<newline>'',
     ''    .header { background-color: #10b981; color: white; padding: 20px; text-align: center; }\<newline>'',
     ''    .content { background-color: #f9fafb; padding: 20px; margin-top: 20px; border-radius: 8px; }\<newline>'',
     ''    .task-name { font-size: 20px; font-weight: bold; margin-bottom: 10px; }\<newline>'',
     ''    .button { display: inline-block; background-color: #10b981; color: white; padding: 12px 24px; text-decoration: none; border-radius: 6px; margin-top: 20px; }\<newline>'',
     ''    .footer { margin-top: 30px; text-align: center; color: #6b7280; font-size: 12px; }\<newline>'',
     ''  </style>\<newline>'',
     ''</head>\<newline>'',
     ''<body>\<newline>'',
     ''  <div class="container">\<newline>'',
     ''    <div class="header">\<newline>'',
     ''      <h1>New Task Assigned</h1>\<newline>'',
     ''    </div>\<newline>'',
     ''    <div class="content">\<newline>'',
     ''      <p>'']\<close>

definition taskAssigned_html_foot :: string where
  \<open>taskAssigned_html_foot = concat
    [''\<newline>'',
     ''    </div>\<newline>'',
     ''    <div class="footer">\<newline>'',
     ''      <p>Tidy Prioritize - Keep your tasks organized</p>\<newline>'',
     ''    </div>\<newline>'',
     ''  </div>\<newline>'',
     ''</body>\<newline>'',
     ''</html>\<newline>'',
     ''    '']\<close>

definition taskAssigned_html :: "jsval \<Rightarrow> jsval \<Rightarrow> jsval \<Rightarrow> jsval \<Rightarrow> jsval \<Rightarrow> tmpl" where
  \<open>taskAssigned_html taskName assignedBy description dueDate url = Tmpl
    [Lit taskAssigned_html_head,
     Sub assignedBy,
     Lit '' has assigned you a new task:</p>\<newline>      <div class="task-name">'',
     Sub taskName,
     Lit ''</div>\<newline>      '',
     (if truthy description then Tmpl [Lit ''<p>'', Sub description, Lit ''</p>''] else Sub (JStr [])),
     Lit ''\<newline>      '',
     (if truthy dueDate then Tmpl [Lit ''<p>Due Date: '', Sub dueDate, Lit ''</p>''] else Sub (JStr [])),
     Lit ''\<newline>      '',
     (if truthy url then Tmpl [Lit ''<a href="'', Sub url, Lit ''" class="button">View Task</a>''] else Sub (JStr [])),
     Lit taskAssigned_html_foot]\<close>

definition taskAssigned_text :: "jsval \<Rightarrow> jsval \<Rightarrow> jsval \<Rightarrow> jsval \<Rightarrow> jsval \<Rightarrow> tmpl" where
  \<open>taskAssigned_text taskName assignedBy description dueDate url = Tmpl
    [Lit ''\<newline>New Task Assigned\<newline>\<newline>'',
     Sub assignedBy,
     Lit '' has assigned you a new task:\<newline>\<newline>'',
     Sub taskName,
     Lit ''\<newline>'',
     (if truthy description then Tmpl [Lit ''\<newline>'', Sub description, Lit ''\<newline>''] else Sub (JStr [])),
     Lit ''\<newline>'',
     (if truthy dueDate then Tmpl [Lit ''Due Date: '', Sub dueDate, Lit ''\<newline>''] else Sub (JStr [])),
     Lit ''\<newline>'',
     (if truthy url then Tmpl [Lit ''\<newline>View Task: '', Sub url] else Sub (JStr [])),
     Lit ''\<newline>\<newline>---\<newline>Tidy Prioritize - Keep your tasks organized\<newline>    '']\<close>

definition taskAssignedTemplate :: "TemplateData \<Rightarrow> RenderedTemplate" where
  "taskAssignedTemplate data =
    (let taskName = get data ''taskName''; assignedBy = get data ''assignedBy''; description = get data ''description''; dueDate = get data ''dueDate''; url = get data ''url''
     in \<lparr>rendered_html = JStr (render (taskAssigned_html taskName assignedBy description dueDate url)),
         rendered_text = JStr (render (taskAssigned_text taskName assignedBy description dueDate url))\<rparr>)"

definition taskCompleted_html_head :: string where
  \<open>taskCompleted_html_head = concat
    [''\<newline>'',
     ''<!DOCTYPE html>\<newline>'',
     ''<html>\<newline>'',
     ''<head>\<newline>'',
     ''  <style>\<newline>'',
     ''    body { font-family: Arial, sans-serif; line-height: 1.6; color: #333; }\<newline>'',
     ''    .container { max-width: 600px; margin: 0 auto; padding: 20px; }\<newline>'',
     ''    .header { background-color: #059669; color: white; padding: 20px; text-align: center; }\<newline>'',
     ''    .content { background-color: #f9fafb; padding: 20px; margin-top: 20px; border-radius: 8px; }\<newline>'',
     ''    .task-name { font-size: 20px; font-weight: bold; margin-bottom: 10px; color: #059669; }\<newline>'',
     ''    .footer { margin-top: 30px; text-align: center; color: #6b7280; font-size: 12px; }\<newline>'',
     ''  </style>\<newline>'',
     ''</head>\<newline>'',
     ''<body>\<newline>'',
     ''  <div class="container">\<newline>'',
     ''    <div class="header">\<newline>'',
     ''      <h1>'' @ [CHR 0xE2, CHR 0x9C, CHR 0x93] @ '' Task Completed</h1>\<newline>'',
     ''    </div>\<newline>'',
     ''    <div class="content">\<newline>'',
     ''      <div class="task-name">'']\<close>

definition taskCompleted_html_foot :: string where
  \<open>taskCompleted_html_foot = concat
    [''\<newline>'',
     ''    </div>\<newline>'',
     ''    <div class="footer">\<newline>'',
     ''      <p>Tidy Prioritize - Keep your tasks organized</p>\<newline>'',
     ''    </div>\<newline>'',
     ''  </div>\<newline>'',
     ''</body>\<newline>'',
     ''</html>\<newline>'',
     ''    '']\<close>

definition taskCompleted_html :: "jsval \<Rightarrow> jsval \<Rightarrow> jsval \<Rightarrow> tmpl" where
  \<open>taskCompleted_html taskName completedBy completedAt = Tmpl
    [Lit taskCompleted_html_head,
     Sub taskName,
     Lit ''</div>\<newline>      <p>Completed by: '',
     Sub completedBy,
     Lit ''</p>\<newline>      '',
     (if truthy completedAt then Tmpl [Lit ''<p>Completed at: '', Sub completedAt, Lit ''</p>''] else Sub (JStr [])),
     Lit taskCompleted_html_foot]\<close>

definition taskCompleted_text :: "jsval \<Rightarrow> jsval \<Rightarrow> jsval \<Rightarrow> tmpl" where
  \<open>taskCompleted_text taskName completedBy completedAt = Tmpl
    [Lit (concat
       [''\<newline>'',
        [CHR 0xE2, CHR 0x9C, CHR 0x93] @ '' Task Completed\<newline>'',
        ''\<newline>'']),
     Sub taskName,
     Lit ''\<newline>\<newline>Completed by: '',
     Sub completedBy,
     Lit ''\<newline>'',
     (if truthy completedAt then Tmpl [Lit ''Completed at: '', Sub completedAt] else Sub (JStr [])),
     Lit ''\<newline>\<newline>---\<newline>Tidy Prioritize - Keep your tasks organized\<newline>    '']\<close>

definition taskCompletedTemplate :: "TemplateData \<Rightarrow> RenderedTemplate" where
  "taskCompletedTemplate data =
    (let taskName = get data ''taskName''; completedBy = get data ''completedBy''; completedAt = get data ''completedAt''
     in \<lparr>rendered_html = JStr (render (taskCompleted_html taskName completedBy completedAt)),
         rendered_text = JStr (render (taskCompleted_text taskName completedBy completedAt))\<rparr>)"

definition welcome_html_head :: string where
  \<open>welcome_html_head = concat
    [''\<newline>'',
     ''<!DOCTYPE html>\<newline>'',
     ''<html>\<newline>'',
     ''<head>\<newline>'',
     ''  <style>\<newline>'',
     ''    body { font-family: Arial, sans-serif; line-height: 1.6; color: #333; }\<newline>'',
     ''    .container { max-width: 600px; margin: 0 auto; padding: 20px; }\<newline>'',
     ''    .header { background-color: #4F46E5; color: white; padding: 30px; text-align: center; }\<newline>'',
     ''    .content { padding: 30px 20px; }\<newline>'',
     ''    .button { display: inline-block; background-color: #4F46E5; color: white; padding: 12px 24px; text-decoration: none; border-radius: 6px; margin-top: 20px; }\<newline>'',
     ''    .footer { margin-top: 30px; text-align: center; color: #6b7280; font-size: 12px; }\<newline>'',
     ''  </style>\<newline>'',
     ''</head>\<newline>'',
     ''<body>\<newline>'',
     ''  <div class="container">\<newline>'',
     ''    <div class="header">\<newline>'',
     ''      <h1>Welcome to Tidy Prioritize!</h1>\<newline>'',
     ''    </div>\<newline>'',
     ''    <div class="content">\<newline>'',
     ''      <p>Hi '']\<close>

definition welcome_html_part2 :: string where
  \<open>welcome_html_part2 = concat
    ['',</p>\<newline>'',
     ''      <p>Welcome to Tidy Prioritize! We're excited to help you organize and prioritize your tasks effectively.</p>\<newline>'',
     ''      <p>Get started by creating your first task and let our AI help you prioritize what matters most.</p>\<newline>'',
     ''      '']\<close>

definition welcome_html_foot :: string where
  \<open>welcome_html_foot = concat
    [''\<newline>'',
     ''    </div>\<newline>'',
     ''    <div class="footer">\<newline>'',
     ''      <p>Tidy Prioritize - Keep your tasks organized</p>\<newline>'',
     ''    </div>\<newline>'',
     ''  </div>\<newline>'',
     ''</body>\<newline>'',
     ''</html>\<newline>'',
     ''    '']\<close>

definition welcome_html :: "jsval \<Rightarrow> jsval \<Rightarrow> tmpl" where
  \<open>welcome_html userName loginUrl = Tmpl
    [Lit welcome_html_head,
     Sub (js_or userName (JStr ''there'')),
     Lit welcome_html_part2,
     (if truthy loginUrl then Tmpl [Lit ''<a href="'', Sub loginUrl, Lit ''" class="button">Get Started</a>''] else Sub (JStr [])),
     Lit welcome_html_foot]\<close>

definition welcome_text_part2 :: string where
  \<open>welcome_text_part2 = concat
    ['',\<newline>'',
     ''\<newline>'',
     ''Welcome to Tidy Prioritize! We're excited to help you organize and prioritize your tasks effectively.\<newline>'',
     ''\<newline>'',
     ''Get started by creating your first task and let our AI help you prioritize what matters most.\<newline>'',
     ''\<newline>'']\<close>

definition welcome_text :: "jsval \<Rightarrow> jsval \<Rightarrow> tmpl" where
  \<open>welcome_text userName loginUrl = Tmpl
    [Lit ''\<newline>Welcome to Tidy Prioritize!\<newline>\<newline>Hi '',
     Sub (js_or userName (JStr ''there'')),
     Lit welcome_text_part2,
     (if truthy loginUrl then Tmpl [Lit ''Get Started: '', Sub loginUrl, Lit ''\<newline>''] else Sub (JStr [])),
     Lit ''\<newline>\<newline>---\<newline>Tidy Prioritize - Keep your tasks organized\<newline>    '']\<close>

definition welcomeTemplate :: "TemplateData \<Rightarrow> RenderedTemplate" where
  "welcomeTemplate data =
    (let userName = get data ''userName''; loginUrl = get data ''loginUrl''
     in \<lparr>rendered_html = JStr (render (welcome_html userName loginUrl)),
         rendered_text = JStr (render (welcome_text userName loginUrl))\<rparr>)"

definition passwordReset_html_head :: string where
  \<open>passwordReset_html_head = concat
    [''\<newline>'',
     ''<!DOCTYPE html>\<newline>'',
     ''<html>\<newline>'',
     ''<head>\<newline>'',
     ''  <style>\<newline>'',
     ''    body { font-family: Arial, sans-serif; line-height: 1.6; color: #333; }\<newline>'',
     ''    .container { max-width: 600px; margin: 0 auto; padding: 20px; }\<newline>'',
     ''    .header { background-color: #dc2626; color: white; padding: 20px; text-align: center; }\<newline>'',
     ''    .content { padding: 20px; }\<newline>'',
     ''    .button { display: inline-block; background-color: #dc2626; color: white; padding: 12px 24px; text-decoration: none; border-radius: 6px; margin-top: 20px; }\<newline>'',
     ''    .warning { background-color: #fef2f2; border-left: 4px solid #dc2626; padding: 12px; margin: 20px 0; }\<newline>'',
     ''    .footer { margin-top: 30px; text-align: center; color: #6b7280; font-size: 12px; }\<newline>'',
     ''  </style>\<newline>'',
     ''</head>\<newline>'',
     ''<body>\<newline>'',
     ''  <div class="container">\<newline>'',
     ''    <div class="header">\<newline>'',
     ''      <h1>Password Reset Request</h1>\<newline>'',
     ''    </div>\<newline>'',
     ''    <div class="content">\<newline>'',
     ''      <p>You requested to reset your password. Click the button below to proceed:</p>\<newline>'',
     ''      '']\<close>

definition passwordReset_html_part2 :: string where
  \<open>passwordReset_html_part2 = concat
    [''\<newline>'',
     ''      <div class="warning">\<newline>'',
     ''        <strong>Security Notice:</strong> This link will expire in '']\<close>

definition passwordReset_html_foot :: string where
  \<open>passwordReset_html_foot = concat
    [''. If you didn't request this reset, please ignore this email.\<newline>'',
     ''      </div>\<newline>'',
     ''    </div>\<newline>'',
     ''    <div class="footer">\<newline>'',
     ''      <p>Tidy Prioritize - Keep your tasks organized</p>\<newline>'',
     ''    </div>\<newline>'',
     ''  </div>\<newline>'',
     ''</body>\<newline>'',
     ''</html>\<newline>'',
     ''    '']\<close>

definition passwordReset_html :: "jsval \<Rightarrow> jsval \<Rightarrow> tmpl" where
  \<open>passwordReset_html resetUrl expiresIn = Tmpl
    [Lit passwordReset_html_head,
     (if truthy resetUrl then Tmpl [Lit ''<a href="'', Sub resetUrl, Lit ''" class="button">Reset Password</a>''] else Sub (JStr [])),
     Lit passwordReset_html_part2,
     Sub (js_or expiresIn (JStr ''1 hour'')),
     Lit passwordReset_html_foot]\<close>

definition passwordReset_text_head :: string where
  \<open>passwordReset_text_head = concat
    [''\<newline>'',
     ''Password Reset Request\<newline>'',
     ''\<newline>'',
     ''You requested to reset your password. Click the link below to proceed:\<newline>'',
     ''\<newline>'']\<close>

definition passwordReset_text_foot :: string where
  \<open>passwordReset_text_foot = concat
    [''. If you didn't request this reset, please ignore this email.\<newline>'',
     ''\<newline>'',
     ''---\<newline>'',
     ''Tidy Prioritize - Keep your tasks organized\<newline>'',
     ''    '']\<close>

definition passwordReset_text :: "jsval \<Rightarrow> jsval \<Rightarrow> tmpl" where
  \<open>passwordReset_text resetUrl expiresIn = Tmpl
    [Lit passwordReset_text_head,
     Sub (js_or resetUrl (JStr ''No reset URL provided'')),
     Lit ''\<newline>\<newline>SECURITY NOTICE: This link will expire in '',
     Sub (js_or expiresIn (JStr ''1 hour'')),
     Lit passwordReset_text_foot]\<close>

definition passwordResetTemplate :: "TemplateData \<Rightarrow> RenderedTemplate" where
  "passwordResetTemplate data =
    (let resetUrl = get data ''resetUrl''; expiresIn = get data ''expiresIn''
     in \<lparr>rendered_html = JStr (render (passwordReset_html resetUrl expiresIn)),
         rendered_text = JStr (render (passwordReset_text resetUrl expiresIn))\<rparr>)"

text \<open>
  The registry is an object literal, so a lookup that misses its five own keys goes on to
  the members the runtime's \<open>Object.prototype\<close> provides (\<open>constructor\<close>, \<open>toString\<close>,
  ...). They are not part of the repository: \<open>proto\<close> gives, for the name of such a member,
  what calling it as a template does (it throws, or it returns a value whose \<open>html\<close> and
  \<open>text\<close> properties are read), and \<open>None\<close> for every other name.
\<close>

type_synonym inherited_members = "string \<Rightarrow> (TemplateData \<Rightarrow> thrown + RenderedTemplate) option"

definition templates :: "string \<Rightarrow> (TemplateData \<Rightarrow> RenderedTemplate) option" where
  "templates =
     [''task-reminder'' \<mapsto> taskReminderTemplate,
      ''task-assigned'' \<mapsto> taskAssignedTemplate,
      ''task-completed'' \<mapsto> taskCompletedTemplate,
      ''welcome'' \<mapsto> welcomeTemplate,
      ''password-reset'' \<mapsto> passwordResetTemplate]"

definition registered :: "string list" where
  "registered =
     [''task-reminder'', ''task-assigned'', ''task-completed'', ''welcome'', ''password-reset'']"

definition renderTemplate ::
  "inherited_members \<Rightarrow> string \<Rightarrow> TemplateData \<Rightarrow> thrown + RenderedTemplate" where
  "renderTemplate proto templateName data =
     (case templates templateName of
        Some template \<Rightarrow> Inr (template data)
      | None \<Rightarrow>
          (case proto templateName of
             Some member \<Rightarrow> member data
           | None \<Rightarrow>
               Inl (Error (''Template '' @ [CHR 0x27] @ templateName @ [CHR 0x27] @ '' not found''))))"


section \<open>Client utilities (src/api/notifications/utils.ts)\<close>

text \<open>
  \<^verbatim>\<open>/^[^\s@]+@[^\s@]+\.[^\s@]+$/\<close>: a non-empty run without white space or \<open>@\<close>, one
  \<open>@\<close>, and a rest without white space or \<open>@\<close> that has a dot with a character on either
  side. \<open>white_space\<close> lists the class \<^verbatim>\<open>\s\<close> in UTF-8: the ASCII controls U+0009 to
  U+000D and the space, U+00A0, U+1680, U+2000 to U+200A, U+2028, U+2029, U+202F, U+205F,
  U+3000 and U+FEFF. In well-formed UTF-8 such a character is in a string exactly when its
  bytes occur in it.
\<close>

definition white_space :: "string list" where
  "white_space =
     [[CHR 0x09], [CHR 0x0A], [CHR 0x0B], [CHR 0x0C], [CHR 0x0D], [CHR 0x20],
      [CHR 0xC2, CHR 0xA0], [CHR 0xE1, CHR 0x9A, CHR 0x80],
      [CHR 0xE2, CHR 0x80, CHR 0x80], [CHR 0xE2, CHR 0x80, CHR 0x81],
      [CHR 0xE2, CHR 0x80, CHR 0x82], [CHR 0xE2, CHR 0x80, CHR 0x83],
      [CHR 0xE2, CHR 0x80, CHR 0x84], [CHR 0xE2, CHR 0x80, CHR 0x85],
      [CHR 0xE2, CHR 0x80, CHR 0x86], [CHR 0xE2, CHR 0x80, CHR 0x87],
      [CHR 0xE2, CHR 0x80, CHR 0x88], [CHR 0xE2, CHR 0x80, CHR 0x89],
      [CHR 0xE2, CHR 0x80, CHR 0x8A], [CHR 0xE2, CHR 0x80, CHR 0xA8],
      [CHR 0xE2, CHR 0x80, CHR 0xA9], [CHR 0xE2, CHR 0x80, CHR 0xAF],
      [CHR 0xE2, CHR 0x81, CHR 0x9F], [CHR 0xE3, CHR 0x80, CHR 0x80],
      [CHR 0xEF, CHR 0xBB, CHR 0xBF]]"

fun occurs :: "string \<Rightarrow> string \<Rightarrow> bool" where
  "occurs w [] = (w = [])"
| "occurs w (c # cs) = (prefix w (c # cs) \<or> occurs w cs)"

definition has_space :: "string \<Rightarrow> bool" where
  "has_space s = list_ex (\<lambda>w. occurs w s) white_space"

definition isValidEmail :: "string \<Rightarrow> bool" where
  "isValidEmail email =
     (\<not> has_space email \<and>
      takeWhile (\<lambda>c. c \<noteq> CHR ''@'') email \<noteq> [] \<and>
      (case dropWhile (\<lambda>c. c \<noteq> CHR ''@'') email of
         [] \<Rightarrow> False
       | c # rest \<Rightarrow> CHR ''@'' \<notin> set rest \<and> CHR ''.'' \<in> set (butlast (tl rest))))"

text \<open>\<^verbatim>\<open>s.replace(/c/g, r)\<close> for a one-character pattern.\<close>

definition replace_all :: "char \<Rightarrow> string \<Rightarrow> string \<Rightarrow> string" where
  "replace_all c r s = concat (map (\<lambda>x. if x = c then r else [x]) s)"

definition escape_html :: "string \<Rightarrow> string" where
  \<open>escape_html v =
     replace_all (CHR 0x27) ''&#x27;''
       (replace_all (CHR 0x22) ''&quot;''
          (replace_all CHR ''>'' ''&gt;''
             (replace_all CHR ''<'' ''&lt;''
                (replace_all CHR ''&'' ''&amp;'' v))))\<close>

definition sanitizeEmailData :: "TemplateData \<Rightarrow> TemplateData" where
  "sanitizeEmailData data =
     (\<lambda>key. case data key of
               Some (JStr v) \<Rightarrow> Some (JStr (escape_html v))
             | other \<Rightarrow> other)"

record EmailStats =
  sentToday :: int
  sentThisHour :: int
  failedToday :: int
  totalSent :: int

record RateLimitConfig =
  maxEmailsPerHour :: int
  maxEmailsPerDay :: int

record RemainingEmails =
  remainingThisHour :: int
  remainingToday :: int
  canSend :: bool

definition calculateRemainingEmails :: "EmailStats \<Rightarrow> RateLimitConfig \<Rightarrow> RemainingEmails" where
  "calculateRemainingEmails stats limits =
     (let remainingThisHour = maxEmailsPerHour limits - sentThisHour stats;
          remainingToday = maxEmailsPerDay limits - sentToday stats
      in \<lparr>remainingThisHour = max 0 remainingThisHour,
          remainingToday = max 0 remainingToday,
          canSend = (remainingThisHour > 0 \<and> remainingToday > 0)\<rparr>)"

section \<open>Audit log (table email_logs)\<close>

text \<open>
  A row of \<open>email_logs\<close>, without its generated \<open>id\<close>. \<open>created_at\<close> is a
  \<^verbatim>\<open>timestamptz\<close>, in microseconds since the epoch; a JavaScript \<open>Date\<close> counts
  milliseconds.
\<close>

datatype email_status = sent | failed

record email_log =
  user_id :: string
  recipient :: string
  subject :: string
  template :: "string option"
  status :: email_status
  error_message :: "string option"
  created_at :: int

text \<open>
  \<^verbatim>\<open>.select('*', {count: 'exact', head: true}).eq('user_id', userId).gte('created_at', since.toISOString())\<close>
\<close>

definition count_since :: "email_log list \<Rightarrow> string \<Rightarrow> int \<Rightarrow> int" where
  "count_since logs userId since =
     int (length (filter (\<lambda>r. user_id r = userId \<and> created_at r \<ge> 1000 * since) logs))"

section \<open>Client facade: getStats (src/api/notifications/client.ts)\<close>

text \<open>
  The client's queries name no user: row level security shows a signed-in user the rows
  with their own \<open>user_id\<close>. \<open>startOfDay\<close> is the runtime's local calendar:
  \<^verbatim>\<open>new Date(now.getFullYear(), now.getMonth(), now.getDate())\<close>. The four count
  queries are taken to succeed.
\<close>

definition visible_to :: "string \<Rightarrow> email_log list \<Rightarrow> email_log list" where
  "visible_to uid logs = filter (\<lambda>r. user_id r = uid) logs"

definition count_status :: "email_log list \<Rightarrow> email_status \<Rightarrow> int option \<Rightarrow> int" where
  "count_status logs st since =
     int (length (filter (\<lambda>r. status r = st \<and>
            (case since of None \<Rightarrow> True | Some t \<Rightarrow> created_at r \<ge> 1000 * t)) logs))"

definition getStats :: "(int \<Rightarrow> int) \<Rightarrow> int \<Rightarrow> email_log list \<Rightarrow> EmailStats" where
  "getStats startOfDay now logs =
     (let today = startOfDay now;
          oneHourAgo = now - 60 * 60 * 1000
      in \<lparr>sentToday = count_status logs sent (Some today),
          sentThisHour = count_status logs sent (Some oneHourAgo),
          failedToday = count_status logs failed (Some today),
          totalSent = count_status logs sent None\<rparr>)"

definition RATE_LIMITS :: RateLimitConfig where
  "RATE_LIMITS = \<lparr>maxEmailsPerHour = 10, maxEmailsPerDay = 50\<rparr>"

text \<open>Local midnight in a zone that is \<open>offset\<close> milliseconds east of UTC all day.\<close>

definition startOfDay_at :: "int \<Rightarrow> int \<Rightarrow> int" where
  "startOfDay_at offset now = now - (now + offset) mod (24 * 60 * 60 * 1000)"

section \<open>Dispatch (supabase/functions/send-email-notification/index.ts)\<close>

record EmailRequest =
  req_to :: "string option"
  req_subject :: "string option"
  req_template :: "string option"
  req_data :: "TemplateData option"
  req_html :: "string option"
  req_text :: "string option"

definition rateLimitConfig :: RateLimitConfig where
  "rateLimitConfig = \<lparr>maxEmailsPerHour = 10, maxEmailsPerDay = 50\<rparr>"

text \<open>The POST to the provider, and what comes back from \<open>fetch\<close>.\<close>

record outbound =
  out_authorization :: string
  out_from :: string
  out_to :: "string option"
  out_subject :: "string option"
  out_html :: jsval
  out_text :: jsval

text \<open>
  \<open>HttpReply status body json\<close>: the status line, what \<^verbatim>\<open>response.text()\<close> gives and
  what \<^verbatim>\<open>response.json()\<close> throws, if it does.
\<close>

datatype provider_reply =
  NetworkFailure thrown
| HttpReply nat "thrown + string" "thrown option"

text \<open>
  Everything a request meets outside the function: the table, the two clocks, the
  outcomes of the three database calls, the environment variables, the auth service, the
  provider, and the runtime's \<open>Object.prototype\<close>.
\<close>

record env =
  email_logs :: "email_log list"
  now :: int
  db_now :: int
  hourlyError :: "thrown option"
  dailyError :: "thrown option"
  logError :: "thrown option"
  RESEND_API_KEY :: "string option"
  EMAIL_FROM :: "string option"
  getUser :: "string \<Rightarrow> string option"
  fetch :: "outbound \<Rightarrow> provider_reply"
  inherited :: inherited_members

record RateLimitResult =
  allowed :: bool
  reason :: "string option"

definition checkRateLimit :: "env \<Rightarrow> string \<Rightarrow> thrown + RateLimitResult" where
  "checkRateLimit e userId =
     (let oneHourAgo = now e - 60 * 60 * 1000;
          oneDayAgo = now e - 24 * 60 * 60 * 1000
      in case hourlyError e of
           Some err \<Rightarrow> Inl err
         | None \<Rightarrow>
             if count_since (email_logs e) userId oneHourAgo \<ge> maxEmailsPerHour rateLimitConfig
             then Inr \<lparr>allowed = False,
                       reason = Some (''Hourly rate limit exceeded. Maximum '' @
                         number_string (maxEmailsPerHour rateLimitConfig) @ '' emails per hour.'')\<rparr>
             else
               (case dailyError e of
                  Some err \<Rightarrow> Inl err
                | None \<Rightarrow>
                    if count_since (email_logs e) userId oneDayAgo \<ge> maxEmailsPerDay rateLimitConfig
                    then Inr \<lparr>allowed = False,
                              reason = Some (''Daily rate limit exceeded. Maximum '' @
                                number_string (maxEmailsPerDay rateLimitConfig) @ '' emails per day.'')\<rparr>
                    else Inr \<lparr>allowed = True, reason = None\<rparr>))"

text \<open>\<^verbatim>\<open>x || null\<close> for a string that may be missing.\<close>

definition or_null :: "string option \<Rightarrow> string option" where
  "or_null x = (if truthy (jsval_of x) then x else None)"

text \<open>
  The row \<open>logEmail\<close> inserts. \<open>recipient\<close> and \<open>subject\<close> are \<^verbatim>\<open>NOT NULL\<close>: without
  them the insert is refused, which \<open>logEmail\<close> reports on the console like any other
  \<open>logError\<close>.
\<close>

definition log_row ::
  "env \<Rightarrow> string \<Rightarrow> EmailRequest \<Rightarrow> email_status \<Rightarrow> string option \<Rightarrow> email_log option" where
  "log_row e userId emailData st err =
     (case (req_to emailData, req_subject emailData) of
        (Some t, Some s) \<Rightarrow>
          Some \<lparr>user_id = userId, recipient = t, subject = s,
                template = or_null (req_template emailData), status = st,
                error_message = or_null err, created_at = db_now e\<rparr>
      | _ \<Rightarrow> None)"

definition logEmail ::
  "env \<Rightarrow> string \<Rightarrow> EmailRequest \<Rightarrow> email_status \<Rightarrow> string option \<Rightarrow> email_log list" where
  "logEmail e userId emailData st err =
     (case (log_row e userId emailData st err, logError e) of
        (Some row, None) \<Rightarrow> email_logs e @ [row]
      | _ \<Rightarrow> email_logs e)"

text \<open>\<open>sendEmail\<close> returns the requests it made to the provider and what it threw, if it did.\<close>

definition resolve_content :: "env \<Rightarrow> EmailRequest \<Rightarrow> thrown + jsval \<times> jsval" where
  "resolve_content e emailData =
     (case req_template emailData of
        Some name \<Rightarrow>
          if name \<noteq> [] then
            (case renderTemplate (inherited e) name
                    (case req_data emailData of Some d \<Rightarrow> d | None \<Rightarrow> Map.empty) of
               Inl err \<Rightarrow> Inl err
             | Inr rendered \<Rightarrow> Inr (rendered_html rendered, rendered_text rendered))
          else Inr (jsval_of (req_html emailData), jsval_of (req_text emailData))
      | None \<Rightarrow> Inr (jsval_of (req_html emailData), jsval_of (req_text emailData)))"

definition sendEmail :: "env \<Rightarrow> EmailRequest \<Rightarrow> outbound list \<times> thrown option" where
  "sendEmail e emailData =
     (if \<not> truthy (jsval_of (RESEND_API_KEY e))
      then ([], Some (Error ''RESEND_API_KEY is not configured''))
      else
        (case resolve_content e emailData of
           Inl err \<Rightarrow> ([], Some err)
         | Inr (htmlContent, textContent) \<Rightarrow>
             if \<not> truthy htmlContent \<and> \<not> truthy textContent
             then ([], Some (Error ''Either html, text, or template must be provided''))
             else
               (let request =
                      \<lparr>out_authorization = ''Bearer '' @ toString (jsval_of (RESEND_API_KEY e)),
                       out_from = toString (js_or (jsval_of (EMAIL_FROM e))
                                              (JStr ''noreply@tidy-prioritize.app'')),
                       out_to = req_to emailData,
                       out_subject = req_subject emailData,
                       out_html = htmlContent,
                       out_text = textContent\<rparr>
                in case fetch e request of
                     NetworkFailure err \<Rightarrow> ([request], Some err)
                   | HttpReply code body json \<Rightarrow>
                       if \<not> (200 \<le> code \<and> code \<le> 299)
                       then
                         (case body of
                            Inl err \<Rightarrow> ([request], Some err)
                          | Inr errorData \<Rightarrow>
                              ([request], Some (Error (''Email service error: '' @
                                 decimal code @ '' - '' @ errorData))))
                       else ([request], json))))"

text \<open>
  The handler. A request carries its method, its \<open>authorization\<close> header and what
  \<^verbatim>\<open>req.json()\<close> gives: an \<open>EmailRequest\<close> whose fields have their declared types
  or are missing, or what is thrown (by the parser, or by reading a field of a body that
  is \<open>null\<close>). The outcome is the response (its status and the
  \<open>error\<close> or \<open>message\<close> of its JSON body), the table afterwards and the requests made
  to the provider. \<open>SUPABASE_URL\<close> and \<open>SUPABASE_ANON_KEY\<close> are set, as the platform sets
  them.
\<close>

record http_request =
  req_method :: string
  authorization :: "string option"
  req_json :: "thrown + EmailRequest"

datatype response_body = NoBody | ErrorBody "string option" | SuccessBody string

record outcome =
  resp_status :: nat
  resp_body :: response_body
  logs_after :: "email_log list"
  deliveries :: "outbound list"

definition respond :: "env \<Rightarrow> nat \<Rightarrow> response_body \<Rightarrow> outcome" where
  "respond e code b =
     \<lparr>resp_status = code, resp_body = b, logs_after = email_logs e, deliveries = []\<rparr>"

definition serve :: "env \<Rightarrow> http_request \<Rightarrow> outcome" where
  "serve e req =
     (if req_method req = ''OPTIONS'' then respond e 200 NoBody
      else
        (case authorization req of
           None \<Rightarrow> respond e 401 (ErrorBody (Some ''Missing authorization header''))
         | Some authHeader \<Rightarrow>
             if authHeader = [] then respond e 401 (ErrorBody (Some ''Missing authorization header''))
             else
               (case getUser e authHeader of
                  None \<Rightarrow> respond e 401 (ErrorBody (Some ''User not authenticated''))
                | Some uid \<Rightarrow>
                    (case req_json req of
                       Inl err \<Rightarrow> respond e 500 (ErrorBody (Some (message_of err)))
                     | Inr emailData \<Rightarrow>
                         if \<not> truthy (jsval_of (req_to emailData)) \<or>
                            \<not> truthy (jsval_of (req_subject emailData))
                         then respond e 400 (ErrorBody (Some ''Missing required fields: to, subject''))
                         else
                           (case checkRateLimit e uid of
                              Inl err \<Rightarrow> respond e 500 (ErrorBody (Some (message_of err)))
                            | Inr rateLimitCheck \<Rightarrow>
                                if \<not> allowed rateLimitCheck
                                then
                                  \<lparr>resp_status = 429,
                                   resp_body = ErrorBody (reason rateLimitCheck),
                                   logs_after = logEmail e uid emailData failed (reason rateLimitCheck),
                                   deliveries = []\<rparr>
                                else
                                  (case sendEmail e emailData of
                                     (posts, None) \<Rightarrow>
                                       \<lparr>resp_status = 200,
                                        resp_body = SuccessBody ''Email sent successfully'',
                                        logs_after = logEmail e uid emailData sent None,
                                        deliveries = posts\<rparr>
                                   | (posts, Some err) \<Rightarrow>
                                       \<lparr>resp_status = 500,
                                        resp_body = ErrorBody (Some (message_of err)),
                                        logs_after =
                                          logEmail e uid emailData failed (Some (message_of err)),
                                        deliveries = posts\<rparr>))))))"

text \<open>
  The path of a request through the handler: it reaches the rate limiter when it is not a
  preflight, its bearer resolves to the user \<open>uid\<close>, its body parses to \<open>emailData\<close> and
  \<open>to\<close> and \<open>subject\<close> are there; it is admitted when the limiter then allows it.
\<close>

definition reaches_limiter :: "env \<Rightarrow> http_request \<Rightarrow> string \<Rightarrow> EmailRequest \<Rightarrow> bool" where
  "reaches_limiter e req uid emailData =
     (req_method req \<noteq> ''OPTIONS'' \<and>
      (case authorization req of
         None \<Rightarrow> False
       | Some authHeader \<Rightarrow> authHeader \<noteq> [] \<and> getUser e authHeader = Some uid) \<and>
      req_json req = Inr emailData \<and>
      truthy (jsval_of (req_to emailData)) \<and>
      truthy (jsval_of (req_subject emailData)))"

definition admitted :: "env \<Rightarrow> http_request \<Rightarrow> string \<Rightarrow> EmailRequest \<Rightarrow> bool" where
  "admitted e req uid emailData =
     (reaches_limiter e req uid emailData \<and>
      checkRateLimit e uid = Inr \<lparr>allowed = True, reason = None\<rparr>)"

text \<open>The row a dispatch of \<open>emailData\<close> by \<open>uid\<close> leaves in the table.\<close>

definition audit_row ::
  "env \<Rightarrow> string \<Rightarrow> EmailRequest \<Rightarrow> email_status \<Rightarrow> string option \<Rightarrow> email_log" where
  "audit_row e uid emailData st err =
     \<lparr>user_id = uid,
      recipient = toString (jsval_of (req_to emailData)),
      subject = toString (jsval_of (req_subject emailData)),
      template = or_null (req_template emailData),
      status = st, error_message = err, created_at = db_now e\<rparr>"

definition hourly_reason :: string where
  "hourly_reason = ''Hourly rate limit exceeded. Maximum 10 emails per hour.''"

definition daily_reason :: string where
  "daily_reason = ''Daily rate limit exceeded. Maximum 50 emails per day.''"

text \<open>
  The fields a template function substitutes as they are, with neither a guard
  (\<^verbatim>\<open>x ? ... : ''\<close>) nor a default (\<^verbatim>\<open>x || '...'\<close>): read off the five functions of
  templates/index.ts.
\<close>

definition unguarded_fields :: "string \<Rightarrow> string list" where
  "unguarded_fields name =
     (if name = ''task-reminder'' then [''taskName'']
      else if name = ''task-assigned'' then [''taskName'', ''assignedBy'']
      else if name = ''task-completed'' then [''taskName'', ''completedBy'']
      else [])"

text \<open>
  The data fields the client facade requires of its callers: the parameters that
  \<open>sendTaskReminder\<close>, \<open>sendTaskAssigned\<close>, \<open>sendTaskCompleted\<close>, \<open>sendWelcome\<close> and
  \<open>sendPasswordReset\<close> (client.ts) type without \<^verbatim>\<open>?\<close> and pass on in \<open>data\<close>.
\<close>

definition facade_required :: "string \<Rightarrow> string list" where
  "facade_required name =
     (if name = ''task-reminder'' then [''taskName'']
      else if name = ''task-assigned'' then [''taskName'', ''assignedBy'']
      else if name = ''task-completed'' then [''taskName'', ''completedBy'']
      else if name = ''password-reset'' then [''resetUrl'']
      else [])"

text \<open>The two template literals a registered template evaluates.\<close>

definition template_literals :: "string \<Rightarrow> TemplateData \<Rightarrow> (tmpl \<times> tmpl) option" where
  "template_literals name data =
     (if name = ''task-reminder'' then
        Some (taskReminder_html (get data ''taskName'') (get data ''dueDate'')
                (get data ''description'') (get data ''url''),
              taskReminder_text (get data ''taskName'') (get data ''dueDate'')
                (get data ''description'') (get data ''url''))
      else if name = ''task-assigned'' then
        Some (taskAssigned_html (get data ''taskName'') (get data ''assignedBy'')
                (get data ''description'') (get data ''dueDate'') (get data ''url''),
              taskAssigned_text (get data ''taskName'') (get data ''assignedBy'')
                (get data ''description'') (get data ''dueDate'') (get data ''url''))
      else if name = ''task-completed'' then
        Some (taskCompleted_html (get data ''taskName'') (get data ''completedBy'')
                (get data ''completedAt''),
              taskCompleted_text (get data ''taskName'') (get data ''completedBy'')
                (get data ''completedAt''))
      else if name = ''welcome'' then
        Some (welcome_html (get data ''userName'') (get data ''loginUrl''),
              welcome_text (get data ''userName'') (get data ''loginUrl''))
      else if name = ''password-reset'' then
        Some (passwordReset_html (get data ''resetUrl'') (get data ''expiresIn''),
              passwordReset_text (get data ''resetUrl'') (get data ''expiresIn''))
      else None)"

text \<open>
  How often a template literal stringifies \<open>undefined\<close>, and how many of the fields
  \<open>ks\<close> a data bag leaves undefined.
\<close>

definition undefined_subs :: "tmpl \<Rightarrow> nat" where
  "undefined_subs p = length (filter (\<lambda>v. v = JUndefined) (subs p))"

definition undefined_fields :: "TemplateData \<Rightarrow> string list \<Rightarrow> nat" where
  "undefined_fields data ks = length (filter (\<lambda>k. get data k = JUndefined) ks)"

section \<open>Scenarios\<close>

text \<open>
  Concrete inputs. The instant is 2025-10-21T10:00:00Z; the user \<open>alice\<close> is signed in
  with the bearer \<open>Bearer alice\<close>; the provider accepts every message; the database calls
  succeed. \<open>object_prototype\<close> is a runtime's \<open>Object.prototype\<close>: called as a template,
  \<open>constructor\<close> returns the data bag itself, \<open>toString\<close> a string (which has no
  \<open>html\<close> or \<open>text\<close>), and the other members throw a \<open>TypeError\<close>, whose message
  \<open>msg\<close> is the engine's.
\<close>

definition object_prototype :: "string \<Rightarrow> inherited_members" where
  "object_prototype msg name =
     (if name = ''constructor'' then
        Some (\<lambda>data. Inr \<lparr>rendered_html = get data ''html'', rendered_text = get data ''text''\<rparr>)
      else if name = ''toString'' then
        Some (\<lambda>data. Inr \<lparr>rendered_html = JUndefined, rendered_text = JUndefined\<rparr>)
      else if name \<in> set [''__proto__'', ''hasOwnProperty'', ''isPrototypeOf'',
                ''propertyIsEnumerable'', ''toLocaleString'', ''valueOf'', ''__defineGetter__'',
                ''__defineSetter__'', ''__lookupGetter__'', ''__lookupSetter__''] then
        Some (\<lambda>data. Inl (Error msg))
      else None)"

definition t0 :: int where
  "t0 = 1761040800000"

definition row_at :: "string \<Rightarrow> email_status \<Rightarrow> int \<Rightarrow> email_log" where
  "row_at uid st t =
     \<lparr>user_id = uid, recipient = ''bob@example.com'', subject = ''Hello'', template = None,
      status = st, error_message = None, created_at = t\<rparr>"

definition env_with :: "email_log list \<Rightarrow> env" where
  "env_with logs =
     \<lparr>email_logs = logs, now = t0, db_now = 1000 * t0 + 250000,
      hourlyError = None, dailyError = None, logError = None,
      RESEND_API_KEY = Some ''re_test_key'', EMAIL_FROM = None,
      getUser = [''Bearer alice'' \<mapsto> ''alice''],
      fetch = (\<lambda>request. HttpReply 200 (Inr ''{}'') None),
      inherited = object_prototype ''TypeError''\<rparr>"

definition post_as_alice :: "EmailRequest \<Rightarrow> http_request" where
  "post_as_alice emailData =
     \<lparr>req_method = ''POST'', authorization = Some ''Bearer alice'', req_json = Inr emailData\<rparr>"

definition email_to :: "string \<Rightarrow> string \<Rightarrow> EmailRequest" where
  "email_to address subj =
     \<lparr>req_to = Some address, req_subject = Some subj, req_template = None,
      req_data = None, req_html = None, req_text = None\<rparr>"

text \<open>
  Histories for \<open>alice\<close>: ten messages sent a minute ago; fifty sent two hours ago. And
  a plain-text message to Bob.
\<close>

definition busy_hour :: "email_log list" where
  "busy_hour = replicate 10 (row_at ''alice'' sent (1000 * (t0 - 60000)))"


definition plain_email :: EmailRequest where
  "plain_email = (email_to ''bob@example.com'' ''Hi'')\<lparr>req_text := Some ''Hello Bob''\<rparr>"

text \<open>
  Requests: one that names a template nobody registered, one without any content, one to
  an address that is none.
\<close>

definition bogus_email :: EmailRequest where
  "bogus_email = (email_to ''bob@example.com'' ''Hi'')\<lparr>req_template := Some ''bogus''\<rparr>"

definition empty_email :: EmailRequest where
  "empty_email = email_to ''bob@example.com'' ''Hi''"

definition malformed_email :: EmailRequest where
  "malformed_email = (email_to ''not-an-email'' ''Hi'')\<lparr>req_text := Some ''Hello''\<rparr>"

text \<open>
  More histories for \<open>alice\<close>: a message sent exactly one hour ago; nine sent a minute
  ago; ten that failed a minute ago; fifty sent twelve hours ago, which at 10:00Z is
  yesterday in UTC.
\<close>

definition boundary_row :: email_log where
  "boundary_row = row_at ''alice'' sent (1000 * (t0 - 3600000))"

definition nine_recent :: "email_log list" where
  "nine_recent = replicate 9 (row_at ''alice'' sent (1000 * (t0 - 60000)))"

definition failed_burst :: "email_log list" where
  "failed_burst = replicate 10 (row_at ''alice'' failed (1000 * (t0 - 60000)))"

definition sent_last_night :: "email_log list" where
  "sent_last_night = replicate 50 (row_at ''alice'' sent (1000 * (t0 - 43200000)))"

text \<open>What the caller and the provider see of an outcome.\<close>

definition visible :: "outcome \<Rightarrow> nat \<times> response_body \<times> outbound list" where
  "visible r = (resp_status r, resp_body r, deliveries r)"

text \<open>Data bags for a reminder: a task name alone, and a task name that is markup.\<close>

definition rent_reminder :: TemplateData where
  "rent_reminder = [''taskName'' \<mapsto> JStr ''Pay rent'']"

definition script_reminder :: TemplateData where
  "script_reminder = [''taskName'' \<mapsto> JStr ''<script>alert(1)</script>'']"

section \<open>Evaluation lemmas\<close>

lemma number_string_limits:
  "number_string 10 = ''10''"
  "number_string 50 = ''50''"
  by (simp_all add: number_string_def decimal.simps digit_char_def)

lemma env_with_simps [simp]:
  "email_logs (env_with logs) = logs"
  "now (env_with logs) = t0"
  "db_now (env_with logs) = 1000 * t0 + 250000"
  "hourlyError (env_with logs) = None"
  "dailyError (env_with logs) = None"
  "logError (env_with logs) = None"
  "RESEND_API_KEY (env_with logs) = Some ''re_test_key''"
  "EMAIL_FROM (env_with logs) = None"
  "getUser (env_with logs) = [''Bearer alice'' \<mapsto> ''alice'']"
  "fetch (env_with logs) = (\<lambda>request. HttpReply 200 (Inr ''{}'') None)"
  "inherited (env_with logs) = object_prototype ''TypeError''"
  by (simp_all add: env_with_def)

lemma count_since_Nil: "count_since [] uid since = 0"
  by (simp add: count_since_def)

lemma count_since_replicate:
  "count_since (replicate n r @ logs) uid since =
     (if user_id r = uid \<and> 1000 * since \<le> created_at r then int n else 0) +
     count_since logs uid since"
  by (simp add: count_since_def)

lemma count_busy_hour: "count_since busy_hour ''alice'' (t0 - 3600000) = 10"
  using count_since_replicate
    [of 10 "row_at ''alice'' sent (1000 * (t0 - 60000))" "[]" "''alice''" "t0 - 3600000"]
  by (simp add: busy_hour_def count_since_Nil row_at_def)


section \<open>Rate limiter\<close>

lemma checkRateLimit_eq:
  "checkRateLimit e uid =
     (case hourlyError e of
        Some err \<Rightarrow> Inl err
      | None \<Rightarrow>
          if 10 \<le> count_since (email_logs e) uid (now e - 3600000)
          then Inr \<lparr>allowed = False, reason = Some hourly_reason\<rparr>
          else
            (case dailyError e of
               Some err \<Rightarrow> Inl err
             | None \<Rightarrow>
                 if 50 \<le> count_since (email_logs e) uid (now e - 86400000)
                 then Inr \<lparr>allowed = False, reason = Some daily_reason\<rparr>
                 else Inr \<lparr>allowed = True, reason = None\<rparr>))"
  by (simp add: checkRateLimit_def rateLimitConfig_def number_string_limits
      hourly_reason_def daily_reason_def split: option.split)




section \<open>Dispatch\<close>

lemma logEmail_eq:
  assumes "truthy (jsval_of (req_to d))" and "truthy (jsval_of (req_subject d))"
  shows "logEmail e uid d st err =
           (if logError e = None then email_logs e @ [audit_row e uid d st (or_null err)]
            else email_logs e)"
  using assms
  by (auto simp: logEmail_def log_row_def audit_row_def jsval_of_def split: option.splits)

lemma serve_reaches_limiter:
  assumes "reaches_limiter e req uid d"
  shows "serve e req =
           (case checkRateLimit e uid of
              Inl err \<Rightarrow> respond e 500 (ErrorBody (Some (message_of err)))
            | Inr chk \<Rightarrow>
                if \<not> allowed chk
                then \<lparr>resp_status = 429, resp_body = ErrorBody (reason chk),
                      logs_after = logEmail e uid d failed (reason chk), deliveries = []\<rparr>
                else
                  (case sendEmail e d of
                     (posts, None) \<Rightarrow>
                       \<lparr>resp_status = 200, resp_body = SuccessBody ''Email sent successfully'',
                        logs_after = logEmail e uid d sent None, deliveries = posts\<rparr>
                   | (posts, Some err) \<Rightarrow>
                       \<lparr>resp_status = 500, resp_body = ErrorBody (Some (message_of err)),
                        logs_after = logEmail e uid d failed (Some (message_of err)),
                        deliveries = posts\<rparr>))"
  using assms
  by (auto simp: reaches_limiter_def serve_def split: option.splits)

lemma serve_admitted:
  assumes "admitted e req uid d"
  shows "serve e req =
           (case sendEmail e d of
              (posts, None) \<Rightarrow>
                \<lparr>resp_status = 200, resp_body = SuccessBody ''Email sent successfully'',
                 logs_after = logEmail e uid d sent None, deliveries = posts\<rparr>
            | (posts, Some err) \<Rightarrow>
                \<lparr>resp_status = 500, resp_body = ErrorBody (Some (message_of err)),
                 logs_after = logEmail e uid d failed (Some (message_of err)),
                 deliveries = posts\<rparr>)"
proof -
  from assms have r: "reaches_limiter e req uid d"
    and c: "checkRateLimit e uid = Inr \<lparr>allowed = True, reason = None\<rparr>"
    by (simp_all add: admitted_def)
  show ?thesis by (simp add: serve_reaches_limiter [OF r] c)
qed

lemma rejection_reason:
  assumes "checkRateLimit e uid = Inr chk" and "\<not> allowed chk"
  shows "reason chk =
           Some (if 10 \<le> count_since (email_logs e) uid (now e - 3600000)
                 then hourly_reason else daily_reason)"
  using assms by (auto simp: checkRateLimit_eq split: option.splits if_splits)

lemma or_null_reason [simp]:
  "or_null (Some hourly_reason) = Some hourly_reason"
  "or_null (Some daily_reason) = Some daily_reason"
  by (simp_all add: or_null_def jsval_of_def hourly_reason_def daily_reason_def)

text \<open>
  Claim C4. A request that reaches the rate limiter and is rejected by it gets status 429
  with the limiter's reason as its error, no request is made to the provider, and
  \<open>logEmail\<close> is called once, with status \<open>failed\<close> and that reason: the table grows by
  exactly this row (when the insert itself fails, by nothing). The reason is the hourly
  one when the hourly window is full and the daily one otherwise, and the two differ.
\<close>

theorem rejected_dispatch:
  assumes "reaches_limiter e req uid d"
    and "checkRateLimit e uid = Inr chk" and "\<not> allowed chk"
  shows "serve e req =
           \<lparr>resp_status = 429, resp_body = ErrorBody (reason chk),
            logs_after =
              (if logError e = None
               then email_logs e @ [audit_row e uid d failed (reason chk)]
               else email_logs e),
            deliveries = []\<rparr> \<and>
         reason chk =
           Some (if 10 \<le> count_since (email_logs e) uid (now e - 3600000)
                 then hourly_reason else daily_reason) \<and>
         hourly_reason \<noteq> daily_reason"
proof -
  from assms(1) have fields: "truthy (jsval_of (req_to d))" "truthy (jsval_of (req_subject d))"
    by (simp_all add: reaches_limiter_def)
  have why: "reason chk =
      Some (if 10 \<le> count_since (email_logs e) uid (now e - 3600000)
            then hourly_reason else daily_reason)"
    using assms(2,3) by (rule rejection_reason)
  then have "or_null (reason chk) = reason chk"
    by (simp split: if_splits)
  then have "logEmail e uid d failed (reason chk) =
      (if logError e = None then email_logs e @ [audit_row e uid d failed (reason chk)]
       else email_logs e)"
    using fields by (simp add: logEmail_eq)
  moreover have "hourly_reason \<noteq> daily_reason"
    by (simp add: hourly_reason_def daily_reason_def)
  ultimately show ?thesis
    using assms(2,3) why by (simp add: serve_reaches_limiter [OF assms(1)])
qed


lemma reaches_limiter_plain:
  "reaches_limiter (env_with logs) (post_as_alice plain_email) ''alice'' plain_email"
  by (simp add: reaches_limiter_def post_as_alice_def plain_email_def email_to_def jsval_of_def)

theorem rejected_dispatch_witness:
  "serve (env_with busy_hour) (post_as_alice plain_email) =
     \<lparr>resp_status = 429, resp_body = ErrorBody (Some hourly_reason),
      logs_after = busy_hour @
        [\<lparr>user_id = ''alice'', recipient = ''bob@example.com'', subject = ''Hi'',
          template = None, status = failed, error_message = Some hourly_reason,
          created_at = 1000 * t0 + 250000\<rparr>],
      deliveries = []\<rparr>"
proof -
  have c: "checkRateLimit (env_with busy_hour) ''alice'' =
      Inr \<lparr>allowed = False, reason = Some hourly_reason\<rparr>"
    by (simp add: checkRateLimit_eq count_busy_hour)
  show ?thesis
    using rejected_dispatch [OF reaches_limiter_plain c]
    by (simp add: audit_row_def plain_email_def email_to_def jsval_of_def or_null_def)
qed


lemma templates_registered: "templates name = None \<longleftrightarrow> name \<notin> set registered"
  by (simp add: templates_def registered_def)

lemma renderTemplate_unknown:
  assumes "name \<notin> set registered" and "proto name = None"
  shows "renderTemplate proto name data =
           Inl (Error (''Template '' @ [CHR 0x27] @ name @ [CHR 0x27] @ '' not found''))"
proof -
  from assms(1) have "templates name = None"
    by (simp add: templates_registered)
  with assms(2) show ?thesis
    by (simp add: renderTemplate_def)
qed

text \<open>
  A name that \<open>Object.prototype\<close> has is found in the registry: as a template,
  \<open>constructor\<close> hands the data bag back, and its \<open>html\<close> and \<open>text\<close> are sent.
\<close>

lemma constructor_is_found:
  "renderTemplate (object_prototype msg) ''constructor'' data =
     Inr \<lparr>rendered_html = get data ''html'', rendered_text = get data ''text''\<rparr>"
  by (simp add: renderTemplate_def templates_def object_prototype_def)

lemma sendEmail_unknown_template:
  assumes "truthy (jsval_of (RESEND_API_KEY e))"
    and "req_template d = Some name" and "name \<noteq> []"
    and "name \<notin> set registered" and "inherited e name = None"
  shows "sendEmail e d =
           ([], Some (Error (''Template '' @ [CHR 0x27] @ name @ [CHR 0x27] @ '' not found'')))"
  using assms by (simp add: sendEmail_def resolve_content_def renderTemplate_unknown)

lemma sendEmail_no_content:
  assumes "truthy (jsval_of (RESEND_API_KEY e))"
    and "\<not> truthy (jsval_of (req_template d))"
    and "\<not> truthy (jsval_of (req_html d))" and "\<not> truthy (jsval_of (req_text d))"
  shows "sendEmail e d = ([], Some (Error ''Either html, text, or template must be provided''))"
  using assms by (auto simp: sendEmail_def resolve_content_def jsval_of_def split: option.splits)

lemma failed_send:
  assumes "admitted e req uid d" and "sendEmail e d = (posts, Some (Error m))" and "m \<noteq> []"
  shows "serve e req =
           \<lparr>resp_status = 500, resp_body = ErrorBody (Some m),
            logs_after =
              (if logError e = None then email_logs e @ [audit_row e uid d failed (Some m)]
               else email_logs e),
            deliveries = posts\<rparr>"
proof -
  from assms(1) have "truthy (jsval_of (req_to d))" and "truthy (jsval_of (req_subject d))"
    by (simp_all add: admitted_def reaches_limiter_def)
  then have "logEmail e uid d failed (Some m) =
      (if logError e = None then email_logs e @ [audit_row e uid d failed (Some m)]
       else email_logs e)"
    using assms(3) by (simp add: logEmail_eq or_null_def jsval_of_def)
  then show ?thesis
    by (simp add: serve_admitted [OF assms(1)] assms(2))
qed

text \<open>
  Claim C2, as the code has it. An admitted request that names a template which is
  neither registered nor a member of \<open>Object.prototype\<close> makes \<open>renderTemplate\<close> throw
  inside \<open>sendEmail\<close>, within the handler's inner \<open>try\<close>: the error is logged like a
  failed delivery. The response is 500 with the message \<open>Template '...' not found\<close>, one
  row with status \<open>failed\<close> and that message is appended (none when the insert fails), and
  the provider is not called. (With no provider key configured, \<open>sendEmail\<close> throws
  before it renders.)
\<close>

theorem unknown_template_logged:
  assumes "admitted e req uid d"
    and "truthy (jsval_of (RESEND_API_KEY e))"
    and "req_template d = Some name" and "name \<noteq> []"
    and "name \<notin> set registered" and "inherited e name = None"
  shows "serve e req =
           \<lparr>resp_status = 500,
            resp_body =
              ErrorBody (Some (''Template '' @ [CHR 0x27] @ name @ [CHR 0x27] @ '' not found'')),
            logs_after =
              (if logError e = None
               then email_logs e @
                 [audit_row e uid d failed
                    (Some (''Template '' @ [CHR 0x27] @ name @ [CHR 0x27] @ '' not found''))]
               else email_logs e),
            deliveries = []\<rparr>"
  using failed_send [OF assms(1) sendEmail_unknown_template [OF assms(2-6)]] by simp

text \<open>
  Claim C3, as the code has it. An admitted request with no template and neither
  \<open>html\<close> nor \<open>text\<close> makes \<open>sendEmail\<close> throw before it calls the provider, within
  the handler's inner \<open>try\<close>: the response is 500 with the message
  \<open>Either html, text, or template must be provided\<close>, and one row with status \<open>failed\<close>
  and that message is appended (none when the insert fails).
\<close>

theorem empty_content_logged:
  assumes "admitted e req uid d"
    and "truthy (jsval_of (RESEND_API_KEY e))"
    and "\<not> truthy (jsval_of (req_template d))"
    and "\<not> truthy (jsval_of (req_html d))" and "\<not> truthy (jsval_of (req_text d))"
  shows "serve e req =
           \<lparr>resp_status = 500,
            resp_body = ErrorBody (Some ''Either html, text, or template must be provided''),
            logs_after =
              (if logError e = None
               then email_logs e @
                 [audit_row e uid d failed
                    (Some ''Either html, text, or template must be provided'')]
               else email_logs e),
            deliveries = []\<rparr>"
  using failed_send [OF assms(1) sendEmail_no_content [OF assms(2-5)]] by simp

lemma checkRateLimit_fresh:
  "checkRateLimit (env_with []) uid = Inr \<lparr>allowed = True, reason = None\<rparr>"
  by (simp add: checkRateLimit_eq count_since_Nil)

lemma admitted_fresh:
  assumes "req_to d = Some a" and "a \<noteq> []" and "req_subject d = Some s" and "s \<noteq> []"
  shows "admitted (env_with []) (post_as_alice d) ''alice'' d"
  using assms
  by (simp add: admitted_def reaches_limiter_def post_as_alice_def jsval_of_def
      checkRateLimit_fresh)

lemma object_prototype_bogus: "object_prototype msg ''bogus'' = None"
  by (simp add: object_prototype_def)

theorem unknown_template_logged_witness:
  "serve (env_with []) (post_as_alice bogus_email) =
     \<lparr>resp_status = 500,
      resp_body = ErrorBody (Some (''Template '' @ [CHR 0x27] @ ''bogus'' @ [CHR 0x27] @ '' not found'')),
      logs_after =
        [\<lparr>user_id = ''alice'', recipient = ''bob@example.com'', subject = ''Hi'',
          template = Some ''bogus'', status = failed,
          error_message = Some (''Template '' @ [CHR 0x27] @ ''bogus'' @ [CHR 0x27] @ '' not found''),
          created_at = 1000 * t0 + 250000\<rparr>],
      deliveries = []\<rparr>"
proof -
  have a: "admitted (env_with []) (post_as_alice bogus_email) ''alice'' bogus_email"
    by (rule admitted_fresh [of _ "''bob@example.com''" "''Hi''"])
      (simp_all add: bogus_email_def email_to_def)
  show ?thesis
    using unknown_template_logged [OF a, of "''bogus''"]
    by (simp add: bogus_email_def email_to_def registered_def object_prototype_bogus
        jsval_of_def audit_row_def or_null_def)
qed

text \<open>
  Claim C2 as stated fails: the request with template \<open>bogus\<close>, from a user without
  history, is answered 500, and the table that was empty has one row, of status \<open>failed\<close>.
\<close>

theorem unknown_template_counterexample:
  "resp_status (serve (env_with []) (post_as_alice bogus_email)) = 500 \<and>
   length (logs_after (serve (env_with []) (post_as_alice bogus_email))) = 1 \<and>
   map status (logs_after (serve (env_with []) (post_as_alice bogus_email))) = [failed] \<and>
   email_logs (env_with []) = []"
proof -
  have a: "admitted (env_with []) (post_as_alice bogus_email) ''alice'' bogus_email"
    by (rule admitted_fresh [of _ "''bob@example.com''" "''Hi''"])
      (simp_all add: bogus_email_def email_to_def)
  have "sendEmail (env_with []) bogus_email =
      ([], Some (Error (''Template '' @ [CHR 0x27] @ ''bogus'' @ [CHR 0x27] @ '' not found'')))"
    by (rule sendEmail_unknown_template)
      (simp_all add: bogus_email_def email_to_def registered_def object_prototype_bogus jsval_of_def)
  from failed_send [OF a this] show ?thesis
    by (simp add: audit_row_def)
qed

theorem empty_content_logged_witness:
  "serve (env_with []) (post_as_alice empty_email) =
     \<lparr>resp_status = 500,
      resp_body = ErrorBody (Some ''Either html, text, or template must be provided''),
      logs_after =
        [\<lparr>user_id = ''alice'', recipient = ''bob@example.com'', subject = ''Hi'',
          template = None, status = failed,
          error_message = Some ''Either html, text, or template must be provided'',
          created_at = 1000 * t0 + 250000\<rparr>],
      deliveries = []\<rparr>"
proof -
  have a: "admitted (env_with []) (post_as_alice empty_email) ''alice'' empty_email"
    by (rule admitted_fresh [of _ "''bob@example.com''" "''Hi''"])
      (simp_all add: empty_email_def email_to_def)
  show ?thesis
    using empty_content_logged [OF a]
    by (simp add: empty_email_def email_to_def jsval_of_def audit_row_def or_null_def)
qed

text \<open>
  Claim C3 as stated fails: the request without content, from a user without history, is
  answered 500, and the table that was empty has one row, of status \<open>failed\<close>.
\<close>

theorem empty_content_counterexample:
  "resp_status (serve (env_with []) (post_as_alice empty_email)) = 500 \<and>
   length (logs_after (serve (env_with []) (post_as_alice empty_email))) = 1 \<and>
   map status (logs_after (serve (env_with []) (post_as_alice empty_email))) = [failed] \<and>
   email_logs (env_with []) = []"
proof -
  have a: "admitted (env_with []) (post_as_alice empty_email) ''alice'' empty_email"
    by (rule admitted_fresh [of _ "''bob@example.com''" "''Hi''"])
      (simp_all add: empty_email_def email_to_def)
  have "sendEmail (env_with []) empty_email =
      ([], Some (Error ''Either html, text, or template must be provided''))"
    by (rule sendEmail_no_content) (simp_all add: empty_email_def email_to_def jsval_of_def)
  from failed_send [OF a this] show ?thesis
    by (simp add: audit_row_def)
qed


lemma checkRateLimit_logError [simp]:
  "checkRateLimit (e\<lparr>logError := x\<rparr>) uid = checkRateLimit e uid"
  by (simp add: checkRateLimit_eq split: option.split)

lemma sendEmail_logError [simp]:
  "sendEmail (e\<lparr>logError := x\<rparr>) d = sendEmail e d"
  by (simp add: sendEmail_def resolve_content_def split: option.split sum.split)

lemma visible_serve_logError:
  "visible (serve (e\<lparr>logError := x\<rparr>) req) = visible (serve e req)"
  by (simp add: serve_def respond_def visible_def split: option.split sum.split prod.split)

text \<open>
  Claim C9. \<open>logEmail\<close> reports a failed insert on the console and returns: whatever
  the insert does (\<open>x\<close>, \<open>y\<close>), the status and body of the response and the requests
  made to the provider are the same.
\<close>

theorem log_failure_invisible:
  "resp_status (serve (e\<lparr>logError := x\<rparr>) req) = resp_status (serve (e\<lparr>logError := y\<rparr>) req) \<and>
   resp_body (serve (e\<lparr>logError := x\<rparr>) req) = resp_body (serve (e\<lparr>logError := y\<rparr>) req) \<and>
   deliveries (serve (e\<lparr>logError := x\<rparr>) req) = deliveries (serve (e\<lparr>logError := y\<rparr>) req)"
proof -
  have "visible (serve (e\<lparr>logError := x\<rparr>) req) = visible (serve (e\<lparr>logError := y\<rparr>) req)"
    by (simp add: visible_serve_logError)
  then show ?thesis
    by (simp add: visible_def)
qed


lemma sendEmail_raw_text:
  assumes "req_template d = None" and "req_text d = Some body" and "body \<noteq> []"
  shows "sendEmail (env_with logs) d =
           ([\<lparr>out_authorization = ''Bearer re_test_key'',
              out_from = ''noreply@tidy-prioritize.app'',
              out_to = req_to d, out_subject = req_subject d,
              out_html = jsval_of (req_html d), out_text = JStr body\<rparr>], None)"
  using assms
  by (simp add: sendEmail_def resolve_content_def jsval_of_def js_or_def)

lemma delivered:
  assumes "admitted e req uid d" and "sendEmail e d = (posts, None)"
  shows "serve e req =
           \<lparr>resp_status = 200, resp_body = SuccessBody ''Email sent successfully'',
            logs_after =
              (if logError e = None then email_logs e @ [audit_row e uid d sent None]
               else email_logs e),
            deliveries = posts\<rparr>"
proof -
  from assms(1) have "truthy (jsval_of (req_to d))" and "truthy (jsval_of (req_subject d))"
    by (simp_all add: admitted_def reaches_limiter_def)
  then have "logEmail e uid d sent None =
      (if logError e = None then email_logs e @ [audit_row e uid d sent None]
       else email_logs e)"
    by (simp add: logEmail_eq or_null_def jsval_of_def)
  then show ?thesis
    by (simp add: serve_admitted [OF assms(1)] assms(2))
qed

lemma not_an_email: "\<not> isValidEmail ''not-an-email''"
  by (simp add: isValidEmail_def)

text \<open>
  Claim C8 at \<open>to = not-an-email\<close>. The handler checks that \<open>to\<close> and \<open>subject\<close> are
  there and nothing more; \<open>isValidEmail\<close> is never called. The address is not valid by
  the repository's own \<open>isValidEmail\<close>, and still the request passes the rate limiter, is
  posted to the provider and is logged as \<open>sent\<close>.
\<close>

theorem malformed_address_sent:
  "\<not> isValidEmail ''not-an-email'' \<and>
   serve (env_with []) (post_as_alice malformed_email) =
     \<lparr>resp_status = 200, resp_body = SuccessBody ''Email sent successfully'',
      logs_after =
        [\<lparr>user_id = ''alice'', recipient = ''not-an-email'', subject = ''Hi'',
          template = None, status = sent, error_message = None,
          created_at = 1000 * t0 + 250000\<rparr>],
      deliveries =
        [\<lparr>out_authorization = ''Bearer re_test_key'',
          out_from = ''noreply@tidy-prioritize.app'',
          out_to = Some ''not-an-email'', out_subject = Some ''Hi'',
          out_html = JUndefined, out_text = JStr ''Hello''\<rparr>]\<rparr>"
proof -
  have a: "admitted (env_with []) (post_as_alice malformed_email) ''alice'' malformed_email"
    by (rule admitted_fresh [of _ "''not-an-email''" "''Hi''"])
      (simp_all add: malformed_email_def email_to_def)
  have s: "sendEmail (env_with []) malformed_email =
      ([\<lparr>out_authorization = ''Bearer re_test_key'',
         out_from = ''noreply@tidy-prioritize.app'',
         out_to = Some ''not-an-email'', out_subject = Some ''Hi'',
         out_html = JUndefined, out_text = JStr ''Hello''\<rparr>], None)"
    using sendEmail_raw_text [of malformed_email "''Hello''" "[]"]
    by (simp add: malformed_email_def email_to_def jsval_of_def)
  from delivered [OF a s] not_an_email show ?thesis
    by (simp add: audit_row_def malformed_email_def email_to_def jsval_of_def or_null_def)
qed

theorem malformed_address_sent_witness:
  "resp_status (serve (env_with []) (post_as_alice malformed_email)) = 200 \<and>
   map recipient (logs_after (serve (env_with []) (post_as_alice malformed_email))) =
     [''not-an-email''] \<and>
   map out_to (deliveries (serve (env_with []) (post_as_alice malformed_email))) =
     [Some ''not-an-email'']"
  using malformed_address_sent by simp

lemma missing_fields_refused:
  assumes "req_method req \<noteq> ''OPTIONS''"
    and "authorization req = Some authHeader" and "authHeader \<noteq> []"
    and "getUser e authHeader = Some uid"
    and "req_json req = Inr d"
    and "\<not> truthy (jsval_of (req_to d)) \<or> \<not> truthy (jsval_of (req_subject d))"
  shows "serve e req =
           \<lparr>resp_status = 400,
            resp_body = ErrorBody (Some ''Missing required fields: to, subject''),
            logs_after = email_logs e, deliveries = []\<rparr>"
  using assms by (auto simp: serve_def respond_def)

lemma serve_plain_fresh:
  "serve (env_with []) (post_as_alice plain_email) =
     \<lparr>resp_status = 200, resp_body = SuccessBody ''Email sent successfully'',
      logs_after =
        [\<lparr>user_id = ''alice'', recipient = ''bob@example.com'', subject = ''Hi'',
          template = None, status = sent, error_message = None,
          created_at = 1000 * t0 + 250000\<rparr>],
      deliveries =
        [\<lparr>out_authorization = ''Bearer re_test_key'',
          out_from = ''noreply@tidy-prioritize.app'',
          out_to = Some ''bob@example.com'', out_subject = Some ''Hi'',
          out_html = JUndefined, out_text = JStr ''Hello Bob''\<rparr>]\<rparr>"
proof -
  have a: "admitted (env_with []) (post_as_alice plain_email) ''alice'' plain_email"
    by (rule admitted_fresh [of _ "''bob@example.com''" "''Hi''"])
      (simp_all add: plain_email_def email_to_def)
  have s: "sendEmail (env_with []) plain_email =
      ([\<lparr>out_authorization = ''Bearer re_test_key'',
         out_from = ''noreply@tidy-prioritize.app'',
         out_to = Some ''bob@example.com'', out_subject = Some ''Hi'',
         out_html = JUndefined, out_text = JStr ''Hello Bob''\<rparr>], None)"
    using sendEmail_raw_text [of plain_email "''Hello Bob''" "[]"]
    by (simp add: plain_email_def email_to_def jsval_of_def)
  from delivered [OF a s] show ?thesis
    by (simp add: audit_row_def plain_email_def email_to_def jsval_of_def or_null_def)
qed

lemma env_with_logError_None: "(env_with logs)\<lparr>logError := None\<rparr> = env_with logs"
  by (simp add: env_with_def)

theorem log_failure_invisible_witness:
  "resp_status (serve ((env_with [])\<lparr>logError := Some (Error ''connection reset'')\<rparr>)
                 (post_as_alice plain_email)) = 200 \<and>
   resp_body (serve ((env_with [])\<lparr>logError := Some (Error ''connection reset'')\<rparr>)
                 (post_as_alice plain_email)) = SuccessBody ''Email sent successfully'' \<and>
   length (deliveries (serve ((env_with [])\<lparr>logError := Some (Error ''connection reset'')\<rparr>)
                 (post_as_alice plain_email))) = 1"
  using log_failure_invisible
    [where e = "env_with []" and x = "Some (Error ''connection reset'')" and y = None
      and req = "post_as_alice plain_email"]
  by (simp add: env_with_logError_None serve_plain_fresh)

section \<open>The window's edge, and the client's pre-check\<close>

lemma count_since_Cons:
  "count_since (r # logs) uid since =
     (if user_id r = uid \<and> 1000 * since \<le> created_at r then 1 else 0) +
     count_since logs uid since"
  by (simp add: count_since_def)

text \<open>
  Claim C6, as the code has it. The hourly query is \<open>created_at \<ge> now - 1h\<close>
  (\<^verbatim>\<open>.gte\<close>): a row timestamped exactly \<open>now - 1h\<close> is counted, and as the tenth row it
  makes the limiter reject.
\<close>

theorem boundary_row_counted:
  "user_id r = uid \<and> created_at r = 1000 * (now e - 60 * 60 * 1000) \<longrightarrow>
     count_since (r # email_logs e) uid (now e - 60 * 60 * 1000) =
       count_since (email_logs e) uid (now e - 60 * 60 * 1000) + 1 \<and>
     (hourlyError e = None \<and> 9 \<le> count_since (email_logs e) uid (now e - 60 * 60 * 1000) \<longrightarrow>
        checkRateLimit (e\<lparr>email_logs := r # email_logs e\<rparr>) uid =
          Inr \<lparr>allowed = False, reason = Some hourly_reason\<rparr>)"
  by (simp add: count_since_Cons checkRateLimit_eq)

lemma count_nine_recent:
  "count_since nine_recent ''alice'' (t0 - 3600000) = 9"
  "count_since nine_recent ''alice'' (t0 - 86400000) = 9"
  using count_since_replicate
    [of 9 "row_at ''alice'' sent (1000 * (t0 - 60000))" "[]" "''alice''" "t0 - 3600000"]
    count_since_replicate
    [of 9 "row_at ''alice'' sent (1000 * (t0 - 60000))" "[]" "''alice''" "t0 - 86400000"]
  by (simp_all add: nine_recent_def count_since_Nil row_at_def)

lemma env_with_logs_update: "(env_with logs)\<lparr>email_logs := logs'\<rparr> = env_with logs'"
  by (simp add: env_with_def)

theorem boundary_row_counted_witness:
  "count_since (boundary_row # nine_recent) ''alice'' (t0 - 3600000) = 10 \<and>
   checkRateLimit (env_with (boundary_row # nine_recent)) ''alice'' =
     Inr \<lparr>allowed = False, reason = Some hourly_reason\<rparr>"
  using boundary_row_counted [of boundary_row "''alice''" "env_with nine_recent"]
  by (simp add: boundary_row_def row_at_def count_nine_recent env_with_logs_update)

text \<open>
  Claim C6 as stated fails: with nine rows in the last hour the user is admitted; with a
  tenth row timestamped exactly \<open>now - 1h\<close> the user is rejected for the hour.
\<close>

theorem boundary_row_counterexample:
  "created_at boundary_row = 1000 * (now (env_with (boundary_row # nine_recent)) - 3600000) \<and>
   checkRateLimit (env_with nine_recent) ''alice'' = Inr \<lparr>allowed = True, reason = None\<rparr> \<and>
   checkRateLimit (env_with (boundary_row # nine_recent)) ''alice'' =
     Inr \<lparr>allowed = False, reason = Some hourly_reason\<rparr>"
  by (simp add: checkRateLimit_eq count_since_Cons count_nine_recent boundary_row_def row_at_def)

lemma count_status_replicate:
  "count_status (replicate n r) st since =
     (if status r = st \<and> (case since of None \<Rightarrow> True | Some t \<Rightarrow> 1000 * t \<le> created_at r)
      then int n else 0)"
  by (simp add: count_status_def)

lemma visible_to_replicate:
  "visible_to uid (replicate n r) = (if user_id r = uid then replicate n r else [])"
  by (simp add: visible_to_def)

lemma canSend_failed_burst:
  "canSend (calculateRemainingEmails
     (getStats startOfDay t0 (visible_to ''alice'' failed_burst)) RATE_LIMITS)"
  by (simp add: failed_burst_def visible_to_replicate getStats_def count_status_replicate
      calculateRemainingEmails_def RATE_LIMITS_def row_at_def Let_def)

lemma rejected_failed_burst:
  "checkRateLimit (env_with failed_burst) ''alice'' =
     Inr \<lparr>allowed = False, reason = Some hourly_reason\<rparr>"
  using count_since_replicate
    [of 10 "row_at ''alice'' failed (1000 * (t0 - 60000))" "[]" "''alice''" "t0 - 3600000"]
  by (simp add: checkRateLimit_eq failed_burst_def count_since_Nil row_at_def)

lemma canSend_sent_last_night:
  "canSend (calculateRemainingEmails
     (getStats (startOfDay_at 0) t0 (visible_to ''alice'' sent_last_night)) RATE_LIMITS)"
  by (simp add: sent_last_night_def visible_to_replicate getStats_def count_status_replicate
      calculateRemainingEmails_def RATE_LIMITS_def row_at_def Let_def startOfDay_at_def t0_def)

lemma rejected_sent_last_night:
  "checkRateLimit (env_with sent_last_night) ''alice'' =
     Inr \<lparr>allowed = False, reason = Some daily_reason\<rparr>"
  using count_since_replicate
    [of 50 "row_at ''alice'' sent (1000 * (t0 - 43200000))" "[]" "''alice''" "t0 - 3600000"]
    count_since_replicate
    [of 50 "row_at ''alice'' sent (1000 * (t0 - 43200000))" "[]" "''alice''" "t0 - 86400000"]
  by (simp add: checkRateLimit_eq sent_last_night_def count_since_Nil row_at_def)

lemma all_sent_last_night: "list_all (\<lambda>r. status r = sent) sent_last_night"
  by (simp add: sent_last_night_def row_at_def list_all_iff)

text \<open>
  Claim C10. The client's pre-check and the server's check disagree, for two reasons.
  \<open>getStats\<close> counts rows of status \<open>sent\<close> only: after ten failed attempts in the last
  hour \<open>canSend\<close> holds (wherever the local day starts) and the server rejects for the
  hour. And \<open>getStats\<close> counts the day from local midnight: after fifty messages sent
  yesterday evening, all of them \<open>sent\<close>, \<open>canSend\<close> holds and the server rejects for the
  day.
\<close>

theorem client_precheck_not_server_check:
  "(\<exists>e uid. (\<forall>startOfDay.
        canSend (calculateRemainingEmails
          (getStats startOfDay (now e) (visible_to uid (email_logs e))) RATE_LIMITS)) \<and>
      checkRateLimit e uid = Inr \<lparr>allowed = False, reason = Some hourly_reason\<rparr>) \<and>
   (\<exists>e uid.
      canSend (calculateRemainingEmails
        (getStats (startOfDay_at 0) (now e) (visible_to uid (email_logs e))) RATE_LIMITS) \<and>
      list_all (\<lambda>r. status r = sent) (email_logs e) \<and>
      checkRateLimit e uid = Inr \<lparr>allowed = False, reason = Some daily_reason\<rparr>)"
proof (intro conjI)
  show "\<exists>e uid. (\<forall>startOfDay.
        canSend (calculateRemainingEmails
          (getStats startOfDay (now e) (visible_to uid (email_logs e))) RATE_LIMITS)) \<and>
      checkRateLimit e uid = Inr \<lparr>allowed = False, reason = Some hourly_reason\<rparr>"
    using canSend_failed_burst rejected_failed_burst
    by (intro exI [of _ "env_with failed_burst"] exI [of _ "''alice''"]) simp
  show "\<exists>e uid.
      canSend (calculateRemainingEmails
        (getStats (startOfDay_at 0) (now e) (visible_to uid (email_logs e))) RATE_LIMITS) \<and>
      list_all (\<lambda>r. status r = sent) (email_logs e) \<and>
      checkRateLimit e uid = Inr \<lparr>allowed = False, reason = Some daily_reason\<rparr>"
    using canSend_sent_last_night rejected_sent_last_night all_sent_last_night
    by (intro exI [of _ "env_with sent_last_night"] exI [of _ "''alice''"]) simp
qed

section \<open>Templates\<close>

lemma truthy_defined: "truthy v \<Longrightarrow> v \<noteq> JUndefined"
  by (cases v) simp_all

lemma js_or_defined [simp]:
  "js_or a (JStr s) \<noteq> JUndefined"
  "JUndefined \<noteq> js_or a (JStr s)"
  by (cases a; simp add: js_or_def)+

lemma heads_nonempty:
  "taskReminder_html_head \<noteq> []"
  "taskAssigned_html_head \<noteq> []"
  "taskCompleted_html_head \<noteq> []"
  "welcome_html_head \<noteq> []"
  "passwordReset_html_head \<noteq> []"
  by (simp_all add: taskReminder_html_head_def taskAssigned_html_head_def
      taskCompleted_html_head_def welcome_html_head_def passwordReset_html_head_def)

lemma taskReminder_nonempty:
  "render (taskReminder_html a b c d) \<noteq> []"
  "render (taskReminder_text a b c d) \<noteq> []"
  by (simp_all add: taskReminder_html_def taskReminder_text_def heads_nonempty)

lemma taskAssigned_nonempty:
  "render (taskAssigned_html a b c d f) \<noteq> []"
  "render (taskAssigned_text a b c d f) \<noteq> []"
  by (simp_all add: taskAssigned_html_def taskAssigned_text_def heads_nonempty)

lemma taskCompleted_nonempty:
  "render (taskCompleted_html a b c) \<noteq> []"
  "render (taskCompleted_text a b c) \<noteq> []"
  by (simp_all add: taskCompleted_html_def taskCompleted_text_def heads_nonempty)

lemma welcome_nonempty:
  "render (welcome_html a b) \<noteq> []"
  "render (welcome_text a b) \<noteq> []"
  by (simp_all add: welcome_html_def welcome_text_def heads_nonempty)

lemma passwordReset_nonempty:
  "render (passwordReset_html a b) \<noteq> []"
  "render (passwordReset_text a b) \<noteq> []"
  by (simp_all add: passwordReset_html_def passwordReset_text_def heads_nonempty)

lemma undefined_subs_simps [simp]:
  "undefined_subs (Lit s) = 0"
  "undefined_subs (Sub v) = (if v = JUndefined then 1 else 0)"
  "undefined_subs (Tmpl []) = 0"
  "undefined_subs (Tmpl (p # ps)) = undefined_subs p + undefined_subs (Tmpl ps)"
  by (simp_all add: undefined_subs_def)

lemma undefined_subs_guarded [simp]:
  "undefined_subs (if truthy v then Tmpl [Lit a, Sub v, Lit b] else Sub (JStr [])) = 0"
  "undefined_subs (if truthy v then Tmpl [Lit a, Sub v] else Sub (JStr [])) = 0"
  by (auto dest: truthy_defined)

lemma taskReminder_subs:
  "undefined_subs (taskReminder_html taskName dueDate description url) =
     (if taskName = JUndefined then 1 else 0)"
  "undefined_subs (taskReminder_text taskName dueDate description url) =
     (if taskName = JUndefined then 1 else 0)"
  by (simp_all add: taskReminder_html_def taskReminder_text_def)

lemma taskAssigned_subs:
  "undefined_subs (taskAssigned_html taskName assignedBy description dueDate url) =
     (if taskName = JUndefined then 1 else 0) + (if assignedBy = JUndefined then 1 else 0)"
  "undefined_subs (taskAssigned_text taskName assignedBy description dueDate url) =
     (if taskName = JUndefined then 1 else 0) + (if assignedBy = JUndefined then 1 else 0)"
  by (simp_all add: taskAssigned_html_def taskAssigned_text_def)

lemma taskCompleted_subs:
  "undefined_subs (taskCompleted_html taskName completedBy completedAt) =
     (if taskName = JUndefined then 1 else 0) + (if completedBy = JUndefined then 1 else 0)"
  "undefined_subs (taskCompleted_text taskName completedBy completedAt) =
     (if taskName = JUndefined then 1 else 0) + (if completedBy = JUndefined then 1 else 0)"
  by (simp_all add: taskCompleted_html_def taskCompleted_text_def)

lemma welcome_subs:
  "undefined_subs (welcome_html userName loginUrl) = 0"
  "undefined_subs (welcome_text userName loginUrl) = 0"
  by (simp_all add: welcome_html_def welcome_text_def)

lemma passwordReset_subs:
  "undefined_subs (passwordReset_html resetUrl expiresIn) = 0"
  "undefined_subs (passwordReset_text resetUrl expiresIn) = 0"
  by (simp_all add: passwordReset_html_def passwordReset_text_def)

lemma templates_own:
  "templates ''task-reminder'' = Some taskReminderTemplate"
  "templates ''task-assigned'' = Some taskAssignedTemplate"
  "templates ''task-completed'' = Some taskCompletedTemplate"
  "templates ''welcome'' = Some welcomeTemplate"
  "templates ''password-reset'' = Some passwordResetTemplate"
  by (simp_all add: templates_def)

lemma template_literals_own:
  "template_literals ''task-reminder'' data =
     Some (taskReminder_html (get data ''taskName'') (get data ''dueDate'')
             (get data ''description'') (get data ''url''),
           taskReminder_text (get data ''taskName'') (get data ''dueDate'')
             (get data ''description'') (get data ''url''))"
  "template_literals ''task-assigned'' data =
     Some (taskAssigned_html (get data ''taskName'') (get data ''assignedBy'')
             (get data ''description'') (get data ''dueDate'') (get data ''url''),
           taskAssigned_text (get data ''taskName'') (get data ''assignedBy'')
             (get data ''description'') (get data ''dueDate'') (get data ''url''))"
  "template_literals ''task-completed'' data =
     Some (taskCompleted_html (get data ''taskName'') (get data ''completedBy'')
             (get data ''completedAt''),
           taskCompleted_text (get data ''taskName'') (get data ''completedBy'')
             (get data ''completedAt''))"
  "template_literals ''welcome'' data =
     Some (welcome_html (get data ''userName'') (get data ''loginUrl''),
           welcome_text (get data ''userName'') (get data ''loginUrl''))"
  "template_literals ''password-reset'' data =
     Some (passwordReset_html (get data ''resetUrl'') (get data ''expiresIn''),
           passwordReset_text (get data ''resetUrl'') (get data ''expiresIn''))"
  by (simp_all add: template_literals_def)

lemma unguarded_fields_own:
  "unguarded_fields ''task-reminder'' = [''taskName'']"
  "unguarded_fields ''task-assigned'' = [''taskName'', ''assignedBy'']"
  "unguarded_fields ''task-completed'' = [''taskName'', ''completedBy'']"
  "unguarded_fields ''welcome'' = []"
  "unguarded_fields ''password-reset'' = []"
  by (simp_all add: unguarded_fields_def)


lemma renderTemplate_own:
  "templates name = Some f \<Longrightarrow> renderTemplate proto name data = Inr (f data)"
  by (simp add: renderTemplate_def)

lemma graceful:
  assumes lits: "template_literals name data = Some (h, t)"
    and rend: "renderTemplate proto name data =
      Inr \<lparr>rendered_html = JStr (render h), rendered_text = JStr (render t)\<rparr>"
    and ne: "render h \<noteq> []" "render t \<noteq> []"
    and undef: "undefined_subs h = undefined_fields data (unguarded_fields name)"
      "undefined_subs t = undefined_fields data (unguarded_fields name)"
  shows "\<exists>h t. template_literals name data = Some (h, t) \<and>
           renderTemplate proto name data =
             Inr \<lparr>rendered_html = JStr (render h), rendered_text = JStr (render t)\<rparr> \<and>
           render h \<noteq> [] \<and> render t \<noteq> [] \<and>
           undefined_subs h = undefined_fields data (unguarded_fields name) \<and>
           undefined_subs t = undefined_fields data (unguarded_fields name)"
  using assms by blast

lemma renderTemplate_registered:
  assumes "name \<in> set registered"
  shows "\<exists>h t. template_literals name data = Some (h, t) \<and>
           renderTemplate proto name data =
             Inr \<lparr>rendered_html = JStr (render h), rendered_text = JStr (render t)\<rparr> \<and>
           render h \<noteq> [] \<and> render t \<noteq> [] \<and>
           undefined_subs h = undefined_fields data (unguarded_fields name) \<and>
           undefined_subs t = undefined_fields data (unguarded_fields name)"
proof -
  from assms have "name = ''task-reminder'' \<or> name = ''task-assigned'' \<or>
      name = ''task-completed'' \<or> name = ''welcome'' \<or> name = ''password-reset''"
    by (simp add: registered_def)
  then show ?thesis
  proof (elim disjE)
    assume 1: "name = ''task-reminder''"
    show ?thesis
      unfolding 1
      by (rule graceful [OF template_literals_own(1)])
        (simp_all add: renderTemplate_own [OF templates_own(1)] taskReminderTemplate_def Let_def
          taskReminder_nonempty taskReminder_subs unguarded_fields_own undefined_fields_def)
  next
    assume 2: "name = ''task-assigned''"
    show ?thesis
      unfolding 2
      by (rule graceful [OF template_literals_own(2)])
        (simp_all add: renderTemplate_own [OF templates_own(2)] taskAssignedTemplate_def Let_def
          taskAssigned_nonempty taskAssigned_subs unguarded_fields_own undefined_fields_def)
  next
    assume 3: "name = ''task-completed''"
    show ?thesis
      unfolding 3
      by (rule graceful [OF template_literals_own(3)])
        (simp_all add: renderTemplate_own [OF templates_own(3)] taskCompletedTemplate_def Let_def
          taskCompleted_nonempty taskCompleted_subs unguarded_fields_own undefined_fields_def)
  next
    assume 4: "name = ''welcome''"
    show ?thesis
      unfolding 4
      by (rule graceful [OF template_literals_own(4)])
        (simp_all add: renderTemplate_own [OF templates_own(4)] welcomeTemplate_def Let_def
          welcome_nonempty welcome_subs unguarded_fields_own undefined_fields_def)
  next
    assume 5: "name = ''password-reset''"
    show ?thesis
      unfolding 5
      by (rule graceful [OF template_literals_own(5)])
        (simp_all add: renderTemplate_own [OF templates_own(5)] passwordResetTemplate_def Let_def
          passwordReset_nonempty passwordReset_subs unguarded_fields_own undefined_fields_def)
  qed
qed


lemma undefined_fields_zero:
  "undefined_fields data ks = 0 \<longleftrightarrow> (\<forall>k \<in> set ks. get data k \<noteq> JUndefined)"
  by (simp add: undefined_fields_def filter_empty_conv)

lemma unguarded_fields_required:
  "set (unguarded_fields name) \<subseteq> set (facade_required name)"
  by (simp add: unguarded_fields_def facade_required_def subset_iff)

text \<open>
  Claim C7, as the code has it. For each of the five registered templates,
  \<open>renderTemplate\<close> returns on the empty data bag, with an \<open>html\<close> and a \<open>text\<close> that
  are non-empty strings. On every data bag each of the two literals stringifies
  \<open>undefined\<close> exactly once per undefined field among those the template substitutes
  unguarded (\<open>taskName\<close>, \<open>assignedBy\<close>, \<open>completedBy\<close>), and for no other field: a
  missing \<open>description\<close>, \<open>dueDate\<close>, \<open>url\<close>, \<open>completedAt\<close>, \<open>userName\<close>,
  \<open>loginUrl\<close>, \<open>resetUrl\<close> or \<open>expiresIn\<close> has its fragment left out
  (\<^verbatim>\<open>x ? ... : ''\<close>) or replaced by a default (\<^verbatim>\<open>x || '...'\<close>). So a data bag that has
  the fields the facade requires never prints \<open>undefined\<close>, whichever optional fields
  it lacks.
\<close>

theorem render_degrades_gracefully:
  "name \<in> set registered \<longrightarrow>
     (\<exists>h t. renderTemplate proto name Map.empty =
               Inr \<lparr>rendered_html = JStr h, rendered_text = JStr t\<rparr> \<and>
             h \<noteq> [] \<and> t \<noteq> []) \<and>
     (\<exists>h t. template_literals name data = Some (h, t) \<and>
             renderTemplate proto name data =
               Inr \<lparr>rendered_html = JStr (render h), rendered_text = JStr (render t)\<rparr> \<and>
             undefined_subs h = undefined_fields data (unguarded_fields name) \<and>
             undefined_subs t = undefined_fields data (unguarded_fields name) \<and>
             ((\<forall>k \<in> set (facade_required name). get data k \<noteq> JUndefined) \<longrightarrow>
                undefined_subs h = 0 \<and> undefined_subs t = 0))"
proof
  assume r: "name \<in> set registered"
  from renderTemplate_registered [OF r, of Map.empty proto]
  have empty_bag: "\<exists>h t. renderTemplate proto name Map.empty =
               Inr \<lparr>rendered_html = JStr h, rendered_text = JStr t\<rparr> \<and>
             h \<noteq> [] \<and> t \<noteq> []"
    by blast
  from renderTemplate_registered [OF r, of data proto]
  obtain h t where lits: "template_literals name data = Some (h, t)"
    and rend: "renderTemplate proto name data =
      Inr \<lparr>rendered_html = JStr (render h), rendered_text = JStr (render t)\<rparr>"
    and uh: "undefined_subs h = undefined_fields data (unguarded_fields name)"
    and ut: "undefined_subs t = undefined_fields data (unguarded_fields name)"
    by blast
  have "undefined_subs h = 0 \<and> undefined_subs t = 0"
    if "\<forall>k \<in> set (facade_required name). get data k \<noteq> JUndefined"
  proof -
    from that unguarded_fields_required [of name]
    have "\<forall>k \<in> set (unguarded_fields name). get data k \<noteq> JUndefined"
      by blast
    then have "undefined_fields data (unguarded_fields name) = 0"
      by (simp only: undefined_fields_zero)
    with uh ut show ?thesis by simp
  qed
  with lits rend uh ut
  have any_bag: "\<exists>h t. template_literals name data = Some (h, t) \<and>
             renderTemplate proto name data =
               Inr \<lparr>rendered_html = JStr (render h), rendered_text = JStr (render t)\<rparr> \<and>
             undefined_subs h = undefined_fields data (unguarded_fields name) \<and>
             undefined_subs t = undefined_fields data (unguarded_fields name) \<and>
             ((\<forall>k \<in> set (facade_required name). get data k \<noteq> JUndefined) \<longrightarrow>
                undefined_subs h = 0 \<and> undefined_subs t = 0)"
    by blast
  from empty_bag any_bag
  show "(\<exists>h t. renderTemplate proto name Map.empty =
               Inr \<lparr>rendered_html = JStr h, rendered_text = JStr t\<rparr> \<and>
             h \<noteq> [] \<and> t \<noteq> []) \<and>
     (\<exists>h t. template_literals name data = Some (h, t) \<and>
             renderTemplate proto name data =
               Inr \<lparr>rendered_html = JStr (render h), rendered_text = JStr (render t)\<rparr> \<and>
             undefined_subs h = undefined_fields data (unguarded_fields name) \<and>
             undefined_subs t = undefined_fields data (unguarded_fields name) \<and>
             ((\<forall>k \<in> set (facade_required name). get data k \<noteq> JUndefined) \<longrightarrow>
                undefined_subs h = 0 \<and> undefined_subs t = 0))"
    by (rule conjI)
qed

lemma get_rent_reminder:
  "get rent_reminder ''taskName'' = JStr ''Pay rent''"
  "get rent_reminder ''dueDate'' = JUndefined"
  "get rent_reminder ''description'' = JUndefined"
  "get rent_reminder ''url'' = JUndefined"
  by (simp_all add: get_def rent_reminder_def)

lemma render_rent_reminder:
  "renderTemplate proto ''task-reminder'' rent_reminder =
     Inr \<lparr>rendered_html = JStr (taskReminder_html_head @ ''Pay rent'' @
              ''</div>\<newline>      \<newline>      \<newline>      '' @ taskReminder_html_foot),
          rendered_text = JStr (''\<newline>Task Reminder\<newline>\<newline>Pay rent\<newline>\<newline>\<newline>'' @
              ''\<newline>\<newline>---\<newline>This is an automated reminder from Tidy Prioritize\<newline>    '')\<rparr>"
  by (simp add: renderTemplate_own [OF templates_own(1)] taskReminderTemplate_def Let_def
      get_rent_reminder taskReminder_html_def taskReminder_text_def)

theorem render_degrades_gracefully_witness:
  "(\<exists>h t. renderTemplate (object_prototype ''TypeError'') ''task-reminder'' Map.empty =
            Inr \<lparr>rendered_html = JStr h, rendered_text = JStr t\<rparr> \<and> h \<noteq> [] \<and> t \<noteq> []) \<and>
   (\<exists>h t. template_literals ''task-reminder'' rent_reminder = Some (h, t) \<and>
           undefined_subs h = 0 \<and> undefined_subs t = 0) \<and>
   renderTemplate (object_prototype ''TypeError'') ''task-reminder'' rent_reminder =
     Inr \<lparr>rendered_html = JStr (taskReminder_html_head @ ''Pay rent'' @
              ''</div>\<newline>      \<newline>      \<newline>      '' @ taskReminder_html_foot),
          rendered_text = JStr (''\<newline>Task Reminder\<newline>\<newline>Pay rent\<newline>\<newline>\<newline>'' @
              ''\<newline>\<newline>---\<newline>This is an automated reminder from Tidy Prioritize\<newline>    '')\<rparr>"
proof -
  have r: "''task-reminder'' \<in> set registered"
    by (simp add: registered_def)
  have f: "\<forall>k \<in> set (facade_required ''task-reminder''). get rent_reminder k \<noteq> JUndefined"
    by (simp add: facade_required_def get_rent_reminder)
  from render_degrades_gracefully
    [of "''task-reminder''" "object_prototype ''TypeError''" rent_reminder] r f
  have "(\<exists>h t. renderTemplate (object_prototype ''TypeError'') ''task-reminder'' Map.empty =
            Inr \<lparr>rendered_html = JStr h, rendered_text = JStr t\<rparr> \<and> h \<noteq> [] \<and> t \<noteq> []) \<and>
   (\<exists>h t. template_literals ''task-reminder'' rent_reminder = Some (h, t) \<and>
           undefined_subs h = 0 \<and> undefined_subs t = 0)"
    by auto
  then show ?thesis
    by (simp only: render_rent_reminder simp_thms)
qed

text \<open>
  Claim C7 as stated fails: the empty data bag lacks every optional field of a reminder,
  and the \<open>html\<close> and the \<open>text\<close> both print \<open>undefined\<close> where the task's name
  belongs.
\<close>

theorem render_degrades_gracefully_counterexample:
  "renderTemplate (object_prototype ''TypeError'') ''task-reminder'' Map.empty =
     Inr \<lparr>rendered_html = JStr (taskReminder_html_head @ ''undefined'' @
              ''</div>\<newline>      \<newline>      \<newline>      '' @ taskReminder_html_foot),
          rendered_text = JStr (''\<newline>Task Reminder\<newline>\<newline>undefined\<newline>\<newline>\<newline>'' @
              ''\<newline>\<newline>---\<newline>This is an automated reminder from Tidy Prioritize\<newline>    '')\<rparr>"
  by (simp add: renderTemplate_own [OF templates_own(1)] taskReminderTemplate_def Let_def
      get_def taskReminder_html_def taskReminder_text_def)

lemma escape_html_script:
  "escape_html ''<script>alert(1)</script>'' = ''&lt;script&gt;alert(1)&lt;/script&gt;''"
  by (simp add: escape_html_def replace_all_def)

text \<open>
  Claim C1 at \<open>taskName = <script>alert(1)</script>\<close>. The templates substitute the
  data's values as they are: the markup stands unescaped in the \<open>html\<close>, between the
  opening of the \<open>task-name\<close> division and its closing. \<open>sanitizeEmailData\<close>
  of the client utilities would have escaped it, and nothing calls it.
\<close>

theorem markup_not_escaped:
  "(\<exists>t. renderTemplate proto ''task-reminder'' script_reminder =
      Inr \<lparr>rendered_html = JStr (taskReminder_html_head @ ''<script>alert(1)</script>'' @
               ''</div>\<newline>      \<newline>      \<newline>      '' @ taskReminder_html_foot),
           rendered_text = t\<rparr>) \<and>
   escape_html ''<script>alert(1)</script>'' = ''&lt;script&gt;alert(1)&lt;/script&gt;''"
  by (simp add: renderTemplate_own [OF templates_own(1)] taskReminderTemplate_def Let_def
      get_def script_reminder_def taskReminder_html_def escape_html_script)

lemma string_value_verbatim:
  "\<exists>rest t. renderTemplate proto ''task-reminder'' (data(''taskName'' \<mapsto> JStr s)) =
      Inr \<lparr>rendered_html = JStr (taskReminder_html_head @ s @ ''</div>'' @ rest),
           rendered_text = t\<rparr>"
  by (simp add: renderTemplate_own [OF templates_own(1)] taskReminderTemplate_def Let_def
      get_def taskReminder_html_def)

lemma replace_all_set:
  "set (replace_all c r s) = (set s - {c}) \<union> (if c \<in> set s then set r else {})"
  by (induction s) (auto simp: replace_all_def)

lemma escape_html_reserved:
  "CHR ''<'' \<notin> set (escape_html s)" "CHR ''>'' \<notin> set (escape_html s)"
  "CHR 0x22 \<notin> set (escape_html s)" "CHR 0x27 \<notin> set (escape_html s)"
  by (auto simp: escape_html_def replace_all_set split: if_splits)

text \<open>The same data bag through \<open>sanitizeEmailData\<close> first renders escaped.\<close>

lemma sanitized_markup_escaped:
  "\<exists>t. renderTemplate proto ''task-reminder'' (sanitizeEmailData script_reminder) =
      Inr \<lparr>rendered_html = JStr (taskReminder_html_head @ ''&lt;script&gt;alert(1)&lt;/script&gt;'' @
               ''</div>\<newline>      \<newline>      \<newline>      '' @ taskReminder_html_foot),
           rendered_text = t\<rparr>"
  by (simp add: renderTemplate_own [OF templates_own(1)] taskReminderTemplate_def Let_def
      get_def script_reminder_def sanitizeEmailData_def taskReminder_html_def escape_html_script)

end
